theory Spec2Isabelle
  imports Main "HOL-Library.List_Lexorder"
begin

unbundle bit_operations_syntax

section \<open>Python values used by main.py\<close>

text \<open>
  A Python \<open>str\<close> is a sequence of Unicode code points; it is modelled as a list of
  naturals. \<open>ascii\<close> embeds an ASCII literal. Comparison of two such lists is the
  lexicographic order on code points, which is Python's order on \<open>str\<close>.
\<close>

type_synonym pystr = "nat list"

definition ascii :: "string \<Rightarrow> pystr" where
  "ascii s = map of_char s"

text \<open>The two non-ASCII characters of the status strings: U+00D7 and U+2713.\<close>

definition MULTIPLICATION_SIGN :: nat where
  "MULTIPLICATION_SIGN = 215"

definition CHECK_MARK :: nat where
  "CHECK_MARK = 10003"

text \<open>\<open>str(n)\<close> for a Python int: decimal digits, with a leading minus sign.\<close>

fun str_nat :: "nat \<Rightarrow> pystr" where
  "str_nat n = (if n < 10 then [48 + n] else str_nat (n div 10) @ [48 + n mod 10])"

declare str_nat.simps [simp del]

definition str_int :: "int \<Rightarrow> pystr" where
  "str_int i = (if i < 0 then 45 # str_nat (nat (- i)) else str_nat (nat i))"

text \<open>\<open>sub in s\<close> on strings: \<open>sub\<close> occurs as a contiguous slice of \<open>s\<close>.\<close>

fun startswith :: "pystr \<Rightarrow> pystr \<Rightarrow> bool" where
  "startswith s [] = True"
| "startswith [] (c # sub) = False"
| "startswith (d # s) (c # sub) = (d = c \<and> startswith s sub)"

fun py_in :: "pystr \<Rightarrow> pystr \<Rightarrow> bool" where
  "py_in sub [] = (sub = [])"
| "py_in sub (c # s) = (startswith (c # s) sub \<or> py_in sub s)"

text \<open>
  \<open>str.strip()\<close> without argument removes leading and trailing whitespace, where
  whitespace is what \<open>str.isspace\<close> accepts.
\<close>

definition py_isspace :: "nat \<Rightarrow> bool" where
  "py_isspace c = ((9 \<le> c \<and> c \<le> 13) \<or> (28 \<le> c \<and> c \<le> 32) \<or> c = 133 \<or> c = 160
     \<or> c = 5760 \<or> (8192 \<le> c \<and> c \<le> 8202) \<or> c = 8232 \<or> c = 8233 \<or> c = 8239
     \<or> c = 8287 \<or> c = 12288)"

definition strip :: "pystr \<Rightarrow> pystr" where
  "strip s = rev (dropWhile py_isspace (rev (dropWhile py_isspace s)))"

text \<open>An exception caught by \<open>except Exception as exc\<close>; \<open>message\<close> is \<open>str(exc)\<close>.\<close>

datatype py_exception = PyException (message: pystr)

section \<open>The platform\<close>

text \<open>
  main.py talks to the window system through win32gui, win32api, win32process and
  ctypes. The window system is a parameter of the model: a record of the calls the
  program makes, over a type \<open>'w\<close> of states of the desktop. A query reads the state
  and returns a value or raises; \<open>ShowWindow\<close> and \<open>SetWindowPos\<close> return the next
  state or raise; \<open>sleep\<close> lets time pass, during which the windows may change.
  A rectangle returned by the platform is (left, top, right, bottom).

  The two \<open>DwmGetWindowAttribute\<close> fields give the content of the output buffer
  after the ctypes call (the program ignores the returned HRESULT): the RECT for
  the extended frame bounds, the int for the cloaked attribute.
\<close>

type_synonym hwnd = int
type_synonym rect = "int \<times> int \<times> int \<times> int"

record 'w win32 =
  getpid :: "'w \<Rightarrow> int"
  EnumWindows :: "'w \<Rightarrow> py_exception + hwnd list"
  IsWindowVisible :: "'w \<Rightarrow> hwnd \<Rightarrow> py_exception + int"
  GetWindowText :: "'w \<Rightarrow> hwnd \<Rightarrow> py_exception + pystr"
  GetWindowThreadProcessId :: "'w \<Rightarrow> hwnd \<Rightarrow> py_exception + int \<times> int"
  GetClassName :: "'w \<Rightarrow> hwnd \<Rightarrow> py_exception + pystr"
  GetWindowLong :: "'w \<Rightarrow> hwnd \<Rightarrow> int \<Rightarrow> py_exception + int"
  DwmGetWindowAttribute_int :: "'w \<Rightarrow> hwnd \<Rightarrow> int \<Rightarrow> py_exception + int"
  DwmGetWindowAttribute_RECT :: "'w \<Rightarrow> hwnd \<Rightarrow> int \<Rightarrow> py_exception + rect"
  GetWindowRect :: "'w \<Rightarrow> hwnd \<Rightarrow> py_exception + rect"
  GetClientRect :: "'w \<Rightarrow> hwnd \<Rightarrow> py_exception + rect"
  ClientToScreen :: "'w \<Rightarrow> hwnd \<Rightarrow> int \<times> int \<Rightarrow> py_exception + int \<times> int"
  MonitorFromWindow :: "'w \<Rightarrow> hwnd \<Rightarrow> int \<Rightarrow> py_exception + int"
  GetMonitorInfo :: "'w \<Rightarrow> int \<Rightarrow> py_exception + rect"
  GetDpiForWindow :: "'w \<Rightarrow> hwnd \<Rightarrow> py_exception + int"
  GetProcessDpiAwareness :: "'w \<Rightarrow> int \<Rightarrow> py_exception + int"
  ShowWindow :: "'w \<Rightarrow> hwnd \<Rightarrow> int \<Rightarrow> py_exception + 'w"
  SetWindowPos :: "'w \<Rightarrow> hwnd \<Rightarrow> int \<Rightarrow> int \<Rightarrow> int \<Rightarrow> int \<Rightarrow> int \<Rightarrow> int \<Rightarrow> py_exception + 'w"
  sleep :: "'w \<Rightarrow> nat \<Rightarrow> 'w"

text \<open>Constants of win32con, and the two DWM attribute numbers of main.py.\<close>

definition SW_RESTORE :: int where "SW_RESTORE = 9"
definition GWL_STYLE :: int where "GWL_STYLE = - 16"
definition GWL_EXSTYLE :: int where "GWL_EXSTYLE = - 20"
definition WS_MAXIMIZE :: int where "WS_MAXIMIZE = 0x01000000"
definition WS_EX_TOOLWINDOW :: int where "WS_EX_TOOLWINDOW = 0x80"
definition WS_EX_APPWINDOW :: int where "WS_EX_APPWINDOW = 0x40000"
definition SWP_NOMOVE :: int where "SWP_NOMOVE = 0x0002"
definition SWP_NOZORDER :: int where "SWP_NOZORDER = 0x0004"
definition SWP_NOACTIVATE :: int where "SWP_NOACTIVATE = 0x0010"
definition SWP_FRAMECHANGED :: int where "SWP_FRAMECHANGED = 0x0020"
definition HWND_TOP :: int where "HWND_TOP = 0"
definition MONITOR_DEFAULTTONEAREST :: int where "MONITOR_DEFAULTTONEAREST = 2"
definition DWMWA_CLOAKED :: int where "DWMWA_CLOAKED = 14"
definition DWMWA_EXTENDED_FRAME_BOUNDS :: int where "DWMWA_EXTENDED_FRAME_BOUNDS = 9"

definition TARGET_W :: int where "TARGET_W = 1920"
definition TARGET_H :: int where "TARGET_H = 1080"

section \<open>Geometry probe\<close>

text \<open>\<open>_get_window_rect\<close>: (left, top, width, height) of the outer rect, zeros on failure.\<close>

definition get_window_rect :: "'w win32 \<Rightarrow> 'w \<Rightarrow> hwnd \<Rightarrow> rect" where
  "get_window_rect os w hwnd =
     (case GetWindowRect os w hwnd of
        Inr (l, t, r, b) \<Rightarrow> (l, t, r - l, b - t)
      | Inl exc \<Rightarrow> (0, 0, 0, 0))"

text \<open>\<open>_get_visible_rect\<close>: the DWM rect, falling back to the outer rect.\<close>

definition get_visible_rect :: "'w win32 \<Rightarrow> 'w \<Rightarrow> hwnd \<Rightarrow> rect" where
  "get_visible_rect os w hwnd =
     (case DwmGetWindowAttribute_RECT os w hwnd DWMWA_EXTENDED_FRAME_BOUNDS of
        Inr (rc_left, rc_top, rc_right, rc_bottom) \<Rightarrow>
          (rc_left, rc_top, rc_right - rc_left, rc_bottom - rc_top)
      | Inl exc \<Rightarrow> get_window_rect os w hwnd)"

text \<open>\<open>_get_shadow_margins\<close>: outer rect minus DWM rect on each edge.\<close>

definition get_shadow_margins :: "'w win32 \<Rightarrow> 'w \<Rightarrow> hwnd \<Rightarrow> rect" where
  "get_shadow_margins os w hwnd =
     (case GetWindowRect os w hwnd of
        Inl exc \<Rightarrow> (0, 0, 0, 0)
      | Inr (ol, ot, or', ob) \<Rightarrow>
          (case DwmGetWindowAttribute_RECT os w hwnd DWMWA_EXTENDED_FRAME_BOUNDS of
             Inl exc \<Rightarrow> (0, 0, 0, 0)
           | Inr (rc_left, rc_top, rc_right, rc_bottom) \<Rightarrow>
               (rc_left - ol, rc_top - ot, or' - rc_right, ob - rc_bottom)))"

text \<open>
  \<open>_get_nonclient_margins\<close>: the client corners mapped to screen coordinates,
  against the visible rect, each difference floored at 0.
\<close>

definition get_nonclient_margins :: "'w win32 \<Rightarrow> 'w \<Rightarrow> hwnd \<Rightarrow> rect" where
  "get_nonclient_margins os w hwnd =
     (case get_visible_rect os w hwnd of (vx, vy, vw, vh) \<Rightarrow>
      (case GetClientRect os w hwnd of
         Inl exc \<Rightarrow> (0, 0, 0, 0)
       | Inr (cl, ct, cr, cb) \<Rightarrow>
           (case ClientToScreen os w hwnd (cl, ct) of
              Inl exc \<Rightarrow> (0, 0, 0, 0)
            | Inr (cx0, cy0) \<Rightarrow>
                (case ClientToScreen os w hwnd (cr, cb) of
                   Inl exc \<Rightarrow> (0, 0, 0, 0)
                 | Inr (cx1, cy1) \<Rightarrow>
                     (max 0 (cx0 - vx),
                      max 0 (cy0 - vy),
                      max 0 ((vx + vw) - cx1),
                      max 0 ((vy + vh) - cy1))))))"

text \<open>\<open>_get_monitor_top_left\<close>: top-left of the monitor nearest to the window.\<close>

definition get_monitor_top_left :: "'w win32 \<Rightarrow> 'w \<Rightarrow> hwnd \<Rightarrow> int \<times> int" where
  "get_monitor_top_left os w hwnd =
     (case MonitorFromWindow os w hwnd MONITOR_DEFAULTTONEAREST of
        Inl exc \<Rightarrow> (0, 0)
      | Inr monitor \<Rightarrow>
          (case GetMonitorInfo os w monitor of
             Inl exc \<Rightarrow> (0, 0)
           | Inr (ml, mt, mr, mb) \<Rightarrow> (ml, mt)))"

text \<open>\<open>_dpi_awareness_str\<close> and \<open>_window_dpi\<close>, read for the diagnostic log only.\<close>

definition dpi_awareness_str :: "'w win32 \<Rightarrow> 'w \<Rightarrow> pystr" where
  "dpi_awareness_str os w =
     (case GetProcessDpiAwareness os w 0 of
        Inl exc \<Rightarrow> ascii ''unknown''
      | Inr v \<Rightarrow>
          (if v = 0 then ascii ''UNAWARE''
           else if v = 1 then ascii ''SYSTEM''
           else if v = 2 then ascii ''PER_MONITOR''
           else str_int v))"

definition window_dpi :: "'w win32 \<Rightarrow> 'w \<Rightarrow> hwnd \<Rightarrow> int" where
  "window_dpi os w hwnd =
     (case GetDpiForWindow os w hwnd of Inl exc \<Rightarrow> - 1 | Inr v \<Rightarrow> v)"

text \<open>\<open>_get_client_size\<close>: visible size minus the non-client margins.\<close>

definition get_client_size :: "'w win32 \<Rightarrow> 'w \<Rightarrow> hwnd \<Rightarrow> int \<times> int" where
  "get_client_size os w hwnd =
     (case get_nonclient_margins os w hwnd of (ncl, nct, ncr, ncb) \<Rightarrow>
      (case get_visible_rect os w hwnd of (vx, vy, vw, vh) \<Rightarrow>
         (vw - ncl - ncr, vh - nct - ncb)))"

text \<open>\<open>_client_wh\<close>: the client size straight from GetClientRect; raises if that does.\<close>

definition client_wh :: "'w win32 \<Rightarrow> 'w \<Rightarrow> hwnd \<Rightarrow> py_exception + int \<times> int" where
  "client_wh os w hwnd =
     (case GetClientRect os w hwnd of
        Inl exc \<Rightarrow> Inl exc
      | Inr (cl, ct, cr, cb) \<Rightarrow> Inr (cr - cl, cb - ct))"

section \<open>Resize controller\<close>

text \<open>
  The calls of \<open>_resize_window\<close> that act on the platform, in the order issued:
  \<open>ShowWindow(hwnd, cmd)\<close>, \<open>time.sleep\<close> (in milliseconds) and
  \<open>SetWindowPos(hwnd, insert_after, x, y, cx, cy, flags)\<close>.
\<close>

datatype call =
    ShowWindowC hwnd int
  | SleepC nat
  | SetWindowPosC hwnd int int int int int int

text \<open>
  A run carries the state of the desktop and the calls issued so far, each with the
  state of the desktop it was issued in. A step of the program returns a value or
  raises, and the run goes on from where the step left it.
\<close>

type_synonym 'w run = "'w \<times> ('w \<times> call) list"
type_synonym ('w, 'a) action = "'w run \<Rightarrow> (py_exception + 'a) \<times> 'w run"

definition return :: "'a \<Rightarrow> ('w, 'a) action" where
  "return a s = (Inr a, s)"

definition bind :: "('w, 'a) action \<Rightarrow> ('a \<Rightarrow> ('w, 'b) action) \<Rightarrow> ('w, 'b) action" where
  "bind m f s = (case m s of (Inl exc, s') \<Rightarrow> (Inl exc, s') | (Inr a, s') \<Rightarrow> f a s')"

text \<open>A call that may raise, and a helper of main.py that catches its own exceptions.\<close>

definition query :: "('w \<Rightarrow> py_exception + 'a) \<Rightarrow> ('w, 'a) action" where
  "query f s = (f (fst s), s)"

definition measure_of :: "('w \<Rightarrow> 'a) \<Rightarrow> ('w, 'a) action" where
  "measure_of f s = (Inr (f (fst s)), s)"

definition call_ShowWindow :: "'w win32 \<Rightarrow> hwnd \<Rightarrow> int \<Rightarrow> ('w, unit) action" where
  "call_ShowWindow os hwnd cmd s =
     (case s of (w, cs) \<Rightarrow>
        (case ShowWindow os w hwnd cmd of
           Inl exc \<Rightarrow> (Inl exc, (w, cs @ [(w, ShowWindowC hwnd cmd)]))
         | Inr w' \<Rightarrow> (Inr (), (w', cs @ [(w, ShowWindowC hwnd cmd)]))))"

definition call_SetWindowPos ::
  "'w win32 \<Rightarrow> hwnd \<Rightarrow> int \<Rightarrow> int \<Rightarrow> int \<Rightarrow> int \<Rightarrow> int \<Rightarrow> int \<Rightarrow> ('w, unit) action" where
  "call_SetWindowPos os hwnd after x y cx cy flags s =
     (case s of (w, cs) \<Rightarrow>
        (case SetWindowPos os w hwnd after x y cx cy flags of
           Inl exc \<Rightarrow> (Inl exc, (w, cs @ [(w, SetWindowPosC hwnd after x y cx cy flags)]))
         | Inr w' \<Rightarrow> (Inr (), (w', cs @ [(w, SetWindowPosC hwnd after x y cx cy flags)]))))"

definition time_sleep :: "'w win32 \<Rightarrow> nat \<Rightarrow> ('w, unit) action" where
  "time_sleep os ms s = (case s of (w, cs) \<Rightarrow> (Inr (), (sleep os w ms, cs @ [(w, SleepC ms)])))"

text \<open>
  The body of the \<open>try\<close> of \<open>_resize_window\<close>, up to the final measurement: it returns
  the client size (fw, fh) measured last. The lines written to \<open>log_fn\<close> are left
  out (\<open>log_fn\<close> is taken not to raise); the measurements that feed only the log are
  kept where the source takes them.
\<close>

definition resize_body :: "'w win32 \<Rightarrow> hwnd \<Rightarrow> bool \<Rightarrow> ('w, int \<times> int) action" where
  "resize_body os hwnd move_to_origin =
     bind (query (\<lambda>w. GetWindowText os w hwnd)) (\<lambda>title.
     bind (measure_of (\<lambda>w. window_dpi os w hwnd)) (\<lambda>win_dpi.
     bind (measure_of (\<lambda>w. dpi_awareness_str os w)) (\<lambda>proc_dpi.
     bind (query (\<lambda>w. GetWindowLong os w hwnd GWL_STYLE)) (\<lambda>style.
     let is_max = (style AND WS_MAXIMIZE \<noteq> 0) in
     bind (call_ShowWindow os hwnd SW_RESTORE) (\<lambda>_.
     bind (if is_max then time_sleep os 100 else return ()) (\<lambda>_.
     bind (measure_of (\<lambda>w. get_window_rect os w hwnd)) (\<lambda>(lx, ly, lw, lh).
     bind (measure_of (\<lambda>w. get_visible_rect os w hwnd)) (\<lambda>(vx, vy, vw, vh).
     bind (measure_of (\<lambda>w. get_shadow_margins os w hwnd)) (\<lambda>(sl, st, sr, sb).
     bind (measure_of (\<lambda>w. get_nonclient_margins os w hwnd)) (\<lambda>(ncl, nct, ncr, ncb).
     bind (query (\<lambda>w. client_wh os w hwnd)) (\<lambda>(cw, ch).
     let adj_w = lw + (TARGET_W - cw);
         adj_h = lh + (TARGET_H - ch);
         flags = SWP_NOZORDER OR SWP_NOACTIVATE OR SWP_FRAMECHANGED in
     bind (if move_to_origin
           then bind (measure_of (\<lambda>w. get_monitor_top_left os w hwnd)) (\<lambda>(mx, my).
                return (mx - sl, my - st, flags))
           else return (0, 0, flags OR SWP_NOMOVE)) (\<lambda>(x, y, flags).
     bind (call_SetWindowPos os hwnd HWND_TOP x y adj_w adj_h flags) (\<lambda>_.
     bind (time_sleep os 150) (\<lambda>_.
     bind (query (\<lambda>w. client_wh os w hwnd)) (\<lambda>(fw, fh).
     bind (if fw \<noteq> TARGET_W \<or> fh \<noteq> TARGET_H
           then bind (measure_of (\<lambda>w. get_window_rect os w hwnd)) (\<lambda>(lx2, ly2, lw2, lh2).
                let adj_w2 = lw2 + (TARGET_W - fw);
                    adj_h2 = lh2 + (TARGET_H - fh) in
                bind (call_SetWindowPos os hwnd HWND_TOP x y adj_w2 adj_h2 flags) (\<lambda>_.
                bind (time_sleep os 150) (\<lambda>_.
                query (\<lambda>w. client_wh os w hwnd))))
           else return (fw, fh)) (\<lambda>(fw, fh).
     bind (measure_of (\<lambda>w. get_visible_rect os w hwnd)) (\<lambda>(fvx, fvy, fvw, fvh).
     return (fw, fh))))))))))))))))))"

text \<open>The three strings \<open>_resize_window\<close> returns.\<close>

definition success_message :: pystr where
  "success_message =
     ascii ''Client area '' @ str_int TARGET_W @ [MULTIPLICATION_SIGN] @ str_int TARGET_H
       @ ascii '' '' @ [CHECK_MARK]"

definition attempted_message :: "int \<Rightarrow> int \<Rightarrow> pystr" where
  "attempted_message fw fh =
     ascii ''Attempted - client '' @ str_int fw @ [MULTIPLICATION_SIGN] @ str_int fh
       @ ascii '' (window may have constraints)''"

definition error_message :: "py_exception \<Rightarrow> pystr" where
  "error_message exc = ascii ''Error: '' @ message exc"

text \<open>\<open>_resize_window\<close>: the body, the report on its result, and the \<open>except\<close> clause.\<close>

definition resize_window :: "'w win32 \<Rightarrow> hwnd \<Rightarrow> bool \<Rightarrow> 'w run \<Rightarrow> pystr \<times> 'w run" where
  "resize_window os hwnd move_to_origin s =
     (case resize_body os hwnd move_to_origin s of
        (Inr (fw, fh), s') \<Rightarrow>
          (if fw = TARGET_W \<and> fh = TARGET_H then success_message
           else attempted_message fw fh, s')
      | (Inl exc, s') \<Rightarrow> (error_message exc, s'))"

section \<open>Window enumerator\<close>

definition SHELL_CLASSES :: "pystr set" where
  "SHELL_CLASSES = set [ascii ''Progman'', ascii ''WorkerW'', ascii ''Shell_TrayWnd'',
     ascii ''Shell_SecondaryTrayWnd'', ascii ''DV2ControlHost'',
     ascii ''Windows.UI.Core.CoreWindow'']"

text \<open>
  \<open>_is_real_app_window\<close>: the checks in the order of the source, each returning
  False at once. Only the cloak query is inside a \<open>try\<close>; when it raises, the
  buffer keeps its initial 0.
\<close>

definition is_real_app_window :: "'w win32 \<Rightarrow> 'w \<Rightarrow> hwnd \<Rightarrow> int \<Rightarrow> py_exception + bool" where
  "is_real_app_window os w hwnd own_pid =
     (case IsWindowVisible os w hwnd of
        Inl exc \<Rightarrow> Inl exc
      | Inr visible \<Rightarrow>
     if visible = 0 then Inr False else
     (case GetWindowText os w hwnd of
        Inl exc \<Rightarrow> Inl exc
      | Inr title \<Rightarrow>
     if strip title = [] then Inr False else
     (case GetWindowThreadProcessId os w hwnd of
        Inl exc \<Rightarrow> Inl exc
      | Inr (tid, pid) \<Rightarrow>
     if pid = own_pid then Inr False else
     (case GetClassName os w hwnd of
        Inl exc \<Rightarrow> Inl exc
      | Inr cls \<Rightarrow>
     if cls \<in> SHELL_CLASSES then Inr False else
     (case GetWindowLong os w hwnd GWL_EXSTYLE of
        Inl exc \<Rightarrow> Inl exc
      | Inr exstyle \<Rightarrow>
     if exstyle AND WS_EX_TOOLWINDOW \<noteq> 0 \<and> \<not> (exstyle AND WS_EX_APPWINDOW \<noteq> 0)
     then Inr False else
     (let cloaked = (case DwmGetWindowAttribute_int os w hwnd DWMWA_CLOAKED of
                       Inl exc \<Rightarrow> 0
                     | Inr v \<Rightarrow> v)
      in if cloaked \<noteq> 0 then Inr False else Inr True))))))"

text \<open>
  \<open>EnumWindows\<close> calls \<open>_cb\<close> on each top-level window in turn; \<open>_cb\<close> appends to
  \<open>results\<close>, and an exception in it ends the enumeration.
\<close>

fun enum_cb :: "'w win32 \<Rightarrow> 'w \<Rightarrow> int \<Rightarrow> hwnd list \<Rightarrow> (hwnd \<times> pystr) list
    \<Rightarrow> py_exception + (hwnd \<times> pystr) list" where
  "enum_cb os w own_pid [] results = Inr results"
| "enum_cb os w own_pid (hwnd # rest) results =
     (case is_real_app_window os w hwnd own_pid of
        Inl exc \<Rightarrow> Inl exc
      | Inr real \<Rightarrow>
          if real
          then (case GetWindowText os w hwnd of
                  Inl exc \<Rightarrow> Inl exc
                | Inr title \<Rightarrow> enum_cb os w own_pid rest (results @ [(hwnd, title)]))
          else enum_cb os w own_pid rest results)"

text \<open>
  \<open>_enum_windows\<close>. \<open>lower\<close> stands for \<open>str.lower\<close> of the Python runtime, whose
  case table is not part of the program. \<open>sorted\<close> is stable, as \<open>sort_key\<close> is.
\<close>

definition enum_windows ::
  "(pystr \<Rightarrow> pystr) \<Rightarrow> 'w win32 \<Rightarrow> 'w \<Rightarrow> py_exception + (hwnd \<times> pystr) list" where
  "enum_windows lower os w =
     (let own_pid = getpid os w in
      case EnumWindows os w of
        Inl exc \<Rightarrow> Inl exc
      | Inr hwnds \<Rightarrow>
          (case enum_cb os w own_pid hwnds [] of
             Inl exc \<Rightarrow> Inl exc
           | Inr results \<Rightarrow> Inr (sort_key (\<lambda>x. lower (snd x)) results)))"

section \<open>Selector window\<close>

text \<open>The part of the selector's state that \<open>_on_select\<close> and \<open>_do_resize\<close> write.\<close>

record ui =
  size_var :: pystr
  status_var :: pystr
  status_fg :: pystr
  resize_btn_enabled :: bool

definition TEXT_PRIMARY :: pystr where "TEXT_PRIMARY = ascii ''#111827''"
definition SUCCESS :: pystr where "SUCCESS = ascii ''#15803d''"
definition WARNING :: pystr where "WARNING = ascii ''#b45309''"

fun join :: "pystr \<Rightarrow> pystr list \<Rightarrow> pystr" where
  "join sep [] = []"
| "join sep [p] = p"
| "join sep (p # q # ps) = p @ sep @ join sep (q # ps)"

text \<open>\<open>SelectorWindow._on_select\<close>, on the selected handles.\<close>

definition on_select :: "'w win32 \<Rightarrow> 'w \<Rightarrow> hwnd list \<Rightarrow> ui \<Rightarrow> ui" where
  "on_select os w hwnds u =
     (if hwnds = []
      then u\<lparr>size_var := ascii ''- select a window -'', resize_btn_enabled := False\<rparr>
      else if length hwnds > 1
      then u\<lparr>size_var := str_int (int (length hwnds)) @ ascii '' windows selected'',
             status_fg := TEXT_PRIMARY, resize_btn_enabled := True\<rparr>
      else
        (let hwnd = hd hwnds in
         case get_client_size os w hwnd of (cw, ch) \<Rightarrow>
         (case get_nonclient_margins os w hwnd of (ncl, nct, ncr, ncb) \<Rightarrow>
          let color = (if cw = TARGET_W \<and> ch = TARGET_H then SUCCESS else WARNING);
              border = max ncl (max ncr ncb);
              parts = (if nct \<noteq> 0 then [ascii ''titlebar '' @ str_int nct @ ascii ''px''] else [])
                    @ (if border \<noteq> 0 then [ascii ''border '' @ str_int border @ ascii ''px''] else []);
              note = (if parts \<noteq> [] then ascii ''  ('' @ join (ascii '', '') parts @ ascii '')''
                      else [])
          in u\<lparr>size_var := str_int cw @ ascii '' '' @ [MULTIPLICATION_SIGN] @ ascii '' ''
                   @ str_int ch @ note,
               status_fg := color, resize_btn_enabled := True\<rparr>)))"

text \<open>The list comprehension of \<open>_do_resize\<close>: one \<open>_resize_window\<close> per handle, in order.\<close>

fun resize_each :: "'w win32 \<Rightarrow> bool \<Rightarrow> hwnd list \<Rightarrow> 'w run \<Rightarrow> pystr list \<times> 'w run" where
  "resize_each os move [] s = ([], s)"
| "resize_each os move (hwnd # hwnds) s =
     (case resize_window os hwnd move s of (r, s1) \<Rightarrow>
      (case resize_each os move hwnds s1 of (rs, s2) \<Rightarrow> (r # rs, s2)))"

definition status_message :: "pystr list \<Rightarrow> pystr" where
  "status_message results =
     (if length results = 1 then hd results
      else
        (let ok = length (filter (py_in [CHECK_MARK]) results) in
         if ok = length results
         then str_int (int ok) @ ascii ''/'' @ str_int (int (length results))
                @ ascii '' windows resized '' @ [CHECK_MARK]
         else str_int (int ok) @ ascii ''/'' @ str_int (int (length results))
                @ ascii '' succeeded''))"

text \<open>
  \<open>SelectorWindow._do_resize\<close>. The first component tells whether the
  "No selection" warning was shown instead.
\<close>

definition do_resize ::
  "'w win32 \<Rightarrow> hwnd list \<Rightarrow> bool \<Rightarrow> ui \<Rightarrow> 'w run \<Rightarrow> bool \<times> ui \<times> 'w run" where
  "do_resize os hwnds move u s =
     (if hwnds = [] then (True, u, s)
      else
        (case resize_each os move hwnds s of (results, s') \<Rightarrow>
           let msg = status_message results;
               u1 = u\<lparr>status_var := msg,
                      status_fg := (if py_in [CHECK_MARK] msg then SUCCESS else WARNING)\<rparr>
           in (False, on_select os (fst s') hwnds u1, s')))"

section \<open>A simulated desktop\<close>

text \<open>
  A small executable window system, used to run the program on concrete inputs.
  A window has an outer rect, a shadow and a frame thickness on each edge
  (left, top, right, bottom), and a grid to which it snaps its client size
  (1 in a direction: the size asked for is taken as it is). A handle that is not on
  the desktop is stale: the calls on it raise, and the DWM calls leave the buffer
  at zero.
\<close>

record sim_window =
  sw_title :: pystr
  sw_class :: pystr
  sw_pid :: int
  sw_visible :: int
  sw_style :: int
  sw_exstyle :: int
  sw_cloaked :: int
  sw_outer :: rect
  sw_shadow :: rect
  sw_frame :: rect
  sw_snap :: "int \<times> int"
  sw_monitor :: int

record desktop =
  windows :: "(hwnd \<times> sim_window) list"
  monitors :: "(int \<times> rect) list"
  own_pid :: int

definition invalid_handle :: py_exception where
  "invalid_handle = PyException (ascii ''Invalid window handle.'')"

definition on_window :: "desktop \<Rightarrow> hwnd \<Rightarrow> (sim_window \<Rightarrow> 'a) \<Rightarrow> py_exception + 'a" where
  "on_window d hwnd f =
     (case map_of (windows d) hwnd of None \<Rightarrow> Inl invalid_handle | Some win \<Rightarrow> Inr (f win))"

definition put_window :: "desktop \<Rightarrow> hwnd \<Rightarrow> sim_window \<Rightarrow> desktop" where
  "put_window d hwnd win =
     d\<lparr>windows := map (\<lambda>(h, v). if h = hwnd then (h, win) else (h, v)) (windows d)\<rparr>"

definition sim_visible_rect :: "sim_window \<Rightarrow> rect" where
  "sim_visible_rect win =
     (case sw_outer win of (l, t, r, b) \<Rightarrow>
      (case sw_shadow win of (sl, st, sr, sb) \<Rightarrow> (l + sl, t + st, r - sr, b - sb)))"

definition sim_client_origin :: "sim_window \<Rightarrow> int \<times> int" where
  "sim_client_origin win =
     (case sim_visible_rect win of (vl, vt, vr, vb) \<Rightarrow>
      (case sw_frame win of (fl, ft, fr, fb) \<Rightarrow> (vl + fl, vt + ft)))"

definition sim_client_rect :: "sim_window \<Rightarrow> rect" where
  "sim_client_rect win =
     (case sim_visible_rect win of (vl, vt, vr, vb) \<Rightarrow>
      (case sw_frame win of (fl, ft, fr, fb) \<Rightarrow>
         (0, 0, (vr - fr) - (vl + fl), (vb - fb) - (vt + ft))))"

definition sim_restore :: "sim_window \<Rightarrow> sim_window" where
  "sim_restore win =
     (if sw_style win AND WS_MAXIMIZE \<noteq> 0
      then win\<lparr>sw_style := sw_style win - WS_MAXIMIZE\<rparr> else win)"

definition sim_set_pos :: "sim_window \<Rightarrow> int \<Rightarrow> int \<Rightarrow> int \<Rightarrow> int \<Rightarrow> int \<Rightarrow> sim_window" where
  "sim_set_pos win x y cx cy flags =
     (case sw_outer win of (l, t, r, b) \<Rightarrow>
      (case sw_shadow win of (sl, st, sr, sb) \<Rightarrow>
      (case sw_frame win of (fl, ft, fr, fb) \<Rightarrow>
      (case sw_snap win of (gw, gh) \<Rightarrow>
         let l' = (if flags AND SWP_NOMOVE \<noteq> 0 then l else x);
             t' = (if flags AND SWP_NOMOVE \<noteq> 0 then t else y);
             mw = sl + fl + fr + sr;
             mh = st + ft + fb + sb;
             cw = (cx - mw) - (cx - mw) mod gw;
             ch = (cy - mh) - (cy - mh) mod gh
         in win\<lparr>sw_outer := (l', t', l' + cw + mw, t' + ch + mh)\<rparr>))))"

definition sim_os :: "desktop win32" where
  "sim_os =
     \<lparr>getpid = own_pid,
      EnumWindows = (\<lambda>d. Inr (map fst (windows d))),
      IsWindowVisible = (\<lambda>d hwnd. on_window d hwnd sw_visible),
      GetWindowText = (\<lambda>d hwnd. on_window d hwnd sw_title),
      GetWindowThreadProcessId = (\<lambda>d hwnd. on_window d hwnd (\<lambda>win. (1, sw_pid win))),
      GetClassName = (\<lambda>d hwnd. on_window d hwnd sw_class),
      GetWindowLong = (\<lambda>d hwnd index. on_window d hwnd
         (\<lambda>win. if index = GWL_STYLE then sw_style win
                 else if index = GWL_EXSTYLE then sw_exstyle win else 0)),
      DwmGetWindowAttribute_int = (\<lambda>d hwnd attr.
         case map_of (windows d) hwnd of None \<Rightarrow> Inr 0 | Some win \<Rightarrow> Inr (sw_cloaked win)),
      DwmGetWindowAttribute_RECT = (\<lambda>d hwnd attr.
         case map_of (windows d) hwnd of
           None \<Rightarrow> Inr (0, 0, 0, 0)
         | Some win \<Rightarrow> Inr (sim_visible_rect win)),
      GetWindowRect = (\<lambda>d hwnd. on_window d hwnd sw_outer),
      GetClientRect = (\<lambda>d hwnd. on_window d hwnd sim_client_rect),
      ClientToScreen = (\<lambda>d hwnd p. on_window d hwnd
         (\<lambda>win. case sim_client_origin win of (ox, oy) \<Rightarrow> (fst p + ox, snd p + oy))),
      MonitorFromWindow = (\<lambda>d hwnd flags. on_window d hwnd sw_monitor),
      GetMonitorInfo = (\<lambda>d monitor.
         case map_of (monitors d) monitor of
           None \<Rightarrow> Inl (PyException (ascii ''Invalid monitor handle.''))
         | Some r \<Rightarrow> Inr r),
      GetDpiForWindow = (\<lambda>d hwnd. on_window d hwnd (\<lambda>win. 96)),
      GetProcessDpiAwareness = (\<lambda>d process. Inr 2),
      ShowWindow = (\<lambda>d hwnd cmd.
         case map_of (windows d) hwnd of
           None \<Rightarrow> Inl invalid_handle
         | Some win \<Rightarrow> Inr (if cmd = SW_RESTORE then put_window d hwnd (sim_restore win) else d)),
      SetWindowPos = (\<lambda>d hwnd after x y cx cy flags.
         case map_of (windows d) hwnd of
           None \<Rightarrow> Inl invalid_handle
         | Some win \<Rightarrow> Inr (put_window d hwnd (sim_set_pos win x y cx cy flags))),
      sleep = (\<lambda>d ms. d)\<rparr>"

text \<open>\<open>str.lower\<close> on ASCII letters, for titles written in ASCII.\<close>

definition ascii_lower :: "pystr \<Rightarrow> pystr" where
  "ascii_lower s = map (\<lambda>c. if 65 \<le> c \<and> c \<le> 90 then c + 32 else c) s"

text \<open>An ordinary window: 8 pixels of shadow on the sides and below, a title bar of 31.\<close>

definition plain_window :: "pystr \<Rightarrow> rect \<Rightarrow> sim_window" where
  "plain_window title outer =
     \<lparr>sw_title = title, sw_class = ascii ''Notepad'', sw_pid = 4242, sw_visible = 1,
      sw_style = 0x14CF0000, sw_exstyle = 0x100, sw_cloaked = 0,
      sw_outer = outer, sw_shadow = (8, 0, 8, 8), sw_frame = (0, 31, 0, 0),
      sw_snap = (1, 1), sw_monitor = 1\<rparr>"

section \<open>Names for the values \<open>_resize_window\<close> computes\<close>

text \<open>
  The lemmas below follow a run of \<open>_resize_window\<close> step by step. These definitions
  name what the source computes on the way: the state in which the geometry is
  measured, the calls of the restore step, and the arguments of \<open>SetWindowPos\<close>.
\<close>

definition after_restore :: "'w win32 \<Rightarrow> int \<Rightarrow> 'w \<Rightarrow> 'w" where
  "after_restore os style w1 = (if style AND WS_MAXIMIZE \<noteq> 0 then sleep os w1 100 else w1)"

definition restore_calls :: "'w win32 \<Rightarrow> hwnd \<Rightarrow> int \<Rightarrow> 'w \<Rightarrow> 'w \<Rightarrow> ('w \<times> call) list" where
  "restore_calls os hwnd style w w1 =
     (w, ShowWindowC hwnd SW_RESTORE) # (if style AND WS_MAXIMIZE \<noteq> 0 then [(w1, SleepC 100)] else [])"

definition swp_x :: "'w win32 \<Rightarrow> 'w \<Rightarrow> hwnd \<Rightarrow> bool \<Rightarrow> int" where
  "swp_x os v hwnd move =
     (if move then fst (get_monitor_top_left os v hwnd) - fst (get_shadow_margins os v hwnd) else 0)"

definition swp_y :: "'w win32 \<Rightarrow> 'w \<Rightarrow> hwnd \<Rightarrow> bool \<Rightarrow> int" where
  "swp_y os v hwnd move =
     (if move then snd (get_monitor_top_left os v hwnd) - fst (snd (get_shadow_margins os v hwnd)) else 0)"

definition swp_flags :: "bool \<Rightarrow> int" where
  "swp_flags move =
     (if move then SWP_NOZORDER OR SWP_NOACTIVATE OR SWP_FRAMECHANGED
      else (SWP_NOZORDER OR SWP_NOACTIVATE OR SWP_FRAMECHANGED) OR SWP_NOMOVE)"

definition adj_w :: "'w win32 \<Rightarrow> 'w \<Rightarrow> hwnd \<Rightarrow> int \<Rightarrow> int" where
  "adj_w os v hwnd cw = fst (snd (snd (get_window_rect os v hwnd))) + (TARGET_W - cw)"

definition adj_h :: "'w win32 \<Rightarrow> 'w \<Rightarrow> hwnd \<Rightarrow> int \<Rightarrow> int" where
  "adj_h os v hwnd ch = snd (snd (snd (get_window_rect os v hwnd))) + (TARGET_H - ch)"

section \<open>Predicates and desktops used in the statements\<close>

text \<open>A margin tuple with no negative component.\<close>

definition nonneg :: "rect \<Rightarrow> bool" where
  "nonneg m = (case m of (l, t, r, b) \<Rightarrow> 0 \<le> l \<and> 0 \<le> t \<and> 0 \<le> r \<and> 0 \<le> b)"

text \<open>One window of client size 1280 x 720 and outer size 1296 x 759.\<close>

definition desk_editor :: desktop where
  "desk_editor =
     \<lparr>windows = [(1, plain_window (ascii ''Editor'') (100, 100, 1396, 859))],
      monitors = [(1, (0, 0, 2560, 1440))], own_pid = 77\<rparr>"

text \<open>The same window caught while its DWM rect is 10 pixels ahead of its outer rect.\<close>

definition desk_animating :: desktop where
  "desk_animating =
     \<lparr>windows = [(1, (plain_window (ascii ''Editor'') (100, 100, 1396, 859))
                        \<lparr>sw_shadow := (- 10, 0, 8, 8)\<rparr>)],
      monitors = [(1, (0, 0, 2560, 1440))], own_pid = 77\<rparr>"

text \<open>
  A window that draws its own frame: its client area is the whole outer rect,
  1296 x 759, while the DWM rect leaves out the 8 pixels of shadow.
\<close>

definition desk_custom_chrome :: desktop where
  "desk_custom_chrome =
     \<lparr>windows = [(1, (plain_window (ascii ''Game'') (100, 100, 1396, 859))
                        \<lparr>sw_frame := (- 8, 0, - 8, - 8)\<rparr>)],
      monitors = [(1, (0, 0, 2560, 1440))], own_pid = 77\<rparr>"

text \<open>The labels and the button as \<open>SelectorWindow._build_ui\<close> creates them.\<close>

definition initial_ui :: ui where
  "initial_ui = \<lparr>size_var = ascii ''- select a window -'', status_var = [],
     status_fg = SUCCESS, resize_btn_enabled = False\<rparr>"

text \<open>The calls of a run that are \<open>SetWindowPos\<close> calls, in order.\<close>

fun is_SetWindowPos :: "call \<Rightarrow> bool" where
  "is_SetWindowPos (SetWindowPosC hwnd after x y cx cy flags) = True"
| "is_SetWindowPos (ShowWindowC hwnd cmd) = False"
| "is_SetWindowPos (SleepC ms) = False"

definition SetWindowPos_calls :: "('w \<times> call) list \<Rightarrow> ('w \<times> call) list" where
  "SetWindowPos_calls cs = filter (\<lambda>c. is_SetWindowPos (snd c)) cs"

text \<open>
  A \<open>SetWindowPos\<close> call issued in state v asks for the outer size measured in v plus
  the difference between the target and the client size measured in v.
\<close>

fun size_by_delta :: "'w win32 \<Rightarrow> hwnd \<Rightarrow> 'w \<times> call \<Rightarrow> bool" where
  "size_by_delta os hwnd (v, SetWindowPosC h after x y cx cy flags) =
     (case client_wh os v hwnd of
        Inl exc \<Rightarrow> False
      | Inr (cw, ch) \<Rightarrow>
          (case get_window_rect os v hwnd of (lx, ly, lw, lh) \<Rightarrow>
             cx = lw + (TARGET_W - cw) \<and> cy = lh + (TARGET_H - ch)))"
| "size_by_delta os hwnd (v, ShowWindowC h cmd) = True"
| "size_by_delta os hwnd (v, SleepC ms) = True"

text \<open>A \<open>SetWindowPos\<close> call passes the position (x, y) and the flags fl.\<close>

fun placed_at :: "int \<Rightarrow> int \<Rightarrow> int \<Rightarrow> 'w \<times> call \<Rightarrow> bool" where
  "placed_at x y fl (v, SetWindowPosC h after x' y' cx cy flags) = (x' = x \<and> y' = y \<and> flags = fl)"
| "placed_at x y fl (v, ShowWindowC h cmd) = True"
| "placed_at x y fl (v, SleepC ms) = True"

text \<open>The window of \<open>desk_editor\<close>, maximized.\<close>

definition desk_maximized :: desktop where
  "desk_maximized =
     \<lparr>windows = [(1, (plain_window (ascii ''Editor'') (- 8, 0, 2568, 1408))
                        \<lparr>sw_style := 0x15CF0000\<rparr>)],
      monitors = [(1, (0, 0, 2560, 1440))], own_pid = 77\<rparr>"


text \<open>
  A window with a shadow of 8 pixels on every edge, on a second monitor whose
  top-left corner is (1920, 0).
\<close>

definition desk_second_monitor :: desktop where
  "desk_second_monitor =
     \<lparr>windows = [(1, (plain_window (ascii ''Player'') (2000, 100, 3296, 867))
                        \<lparr>sw_shadow := (8, 8, 8, 8), sw_monitor := 2\<rparr>)],
      monitors = [(1, (0, 0, 1920, 1080)), (2, (1920, 0, 3840, 1080))], own_pid = 77\<rparr>"


text \<open>
  What the body of \<open>_resize_window\<close> ends with for each handle of a batch, in order:
  the exception caught, or the client size measured last.
\<close>

fun resize_outcomes ::
  "'w win32 \<Rightarrow> bool \<Rightarrow> hwnd list \<Rightarrow> 'w run \<Rightarrow> (py_exception + int \<times> int) list" where
  "resize_outcomes os move [] s = []"
| "resize_outcomes os move (hwnd # hwnds) s =
     (case resize_body os hwnd move s of (r, s1) \<Rightarrow> r # resize_outcomes os move hwnds s1)"

text \<open>Two windows, the second of which has the target size already.\<close>

definition desk_pair :: desktop where
  "desk_pair =
     \<lparr>windows = [(1, plain_window (ascii ''Editor'') (100, 100, 1396, 859)),
                 (2, plain_window (ascii ''Viewer'') (300, 200, 2236, 1319))],
      monitors = [(1, (0, 0, 2560, 1440))], own_pid = 77\<rparr>"

section \<open>Runs of \<open>_resize_window\<close>\<close>

lemma bind_query: "bind (query f) g s = (case f (fst s) of Inl e \<Rightarrow> (Inl e, s) | Inr a \<Rightarrow> g a s)"
  by (simp add: bind_def query_def split: sum.splits)

lemma bind_measure_of: "bind (measure_of f) g s = g (f (fst s)) s"
  by (simp add: bind_def measure_of_def)

lemma bind_return: "bind (return a) g s = g a s"
  by (simp add: bind_def return_def)

lemma bind_time_sleep:
  "bind (time_sleep os ms) g (w, cs) = g () (sleep os w ms, cs @ [(w, SleepC ms)])"
  by (simp add: bind_def time_sleep_def)

lemma bind_call_ShowWindow:
  "bind (call_ShowWindow os hwnd cmd) g (w, cs) =
     (case ShowWindow os w hwnd cmd of
        Inl e \<Rightarrow> (Inl e, (w, cs @ [(w, ShowWindowC hwnd cmd)]))
      | Inr w' \<Rightarrow> g () (w', cs @ [(w, ShowWindowC hwnd cmd)]))"
  by (simp add: bind_def call_ShowWindow_def split: sum.splits)

lemma bind_call_SetWindowPos:
  "bind (call_SetWindowPos os hwnd a x y cx cy fl) g (w, cs) =
     (case SetWindowPos os w hwnd a x y cx cy fl of
        Inl e \<Rightarrow> (Inl e, (w, cs @ [(w, SetWindowPosC hwnd a x y cx cy fl)]))
      | Inr w' \<Rightarrow> g () (w', cs @ [(w, SetWindowPosC hwnd a x y cx cy fl)]))"
  by (simp add: bind_def call_SetWindowPos_def split: sum.splits)

lemma bind_if: "bind (if c then m else n) g s = (if c then bind m g s else bind n g s)"
  by simp

lemma bind_assoc: "bind (bind m f) g = bind m (\<lambda>a. bind (f a) g)"
  by (rule ext) (simp add: bind_def split: sum.splits prod.splits)

lemmas step = bind_query bind_measure_of bind_return bind_time_sleep bind_call_ShowWindow
  bind_call_SetWindowPos bind_if bind_assoc split_def Let_def


lemmas ghost = after_restore_def restore_calls_def swp_x_def swp_y_def swp_flags_def adj_w_def adj_h_def

lemma resize_body_cases [consumes 1, case_names text_raises style_raises restore_raises
    client_raises apply_raises verify_raises first_pass retry_raises reverify_raises retried]:
  assumes run: "resize_body os hwnd move (w, cs) = (r, (w', cs'))"
  obtains
    e where "GetWindowText os w hwnd = Inl e" "r = Inl e" "w' = w" "cs' = cs"
  | title e where "GetWindowText os w hwnd = Inr title"
      "GetWindowLong os w hwnd GWL_STYLE = Inl e" "r = Inl e" "w' = w" "cs' = cs"
  | title style e where "GetWindowText os w hwnd = Inr title"
      "GetWindowLong os w hwnd GWL_STYLE = Inr style"
      "ShowWindow os w hwnd SW_RESTORE = Inl e"
      "r = Inl e" "w' = w" "cs' = cs @ [(w, ShowWindowC hwnd SW_RESTORE)]"
  | title style w1 w2 e where "GetWindowText os w hwnd = Inr title"
      "GetWindowLong os w hwnd GWL_STYLE = Inr style"
      "ShowWindow os w hwnd SW_RESTORE = Inr w1" "w2 = after_restore os style w1"
      "client_wh os w2 hwnd = Inl e"
      "r = Inl e" "w' = w2" "cs' = cs @ restore_calls os hwnd style w w1"
  | title style w1 w2 cw ch e where "GetWindowText os w hwnd = Inr title"
      "GetWindowLong os w hwnd GWL_STYLE = Inr style"
      "ShowWindow os w hwnd SW_RESTORE = Inr w1" "w2 = after_restore os style w1"
      "client_wh os w2 hwnd = Inr (cw, ch)"
      "SetWindowPos os w2 hwnd HWND_TOP (swp_x os w2 hwnd move) (swp_y os w2 hwnd move)
         (adj_w os w2 hwnd cw) (adj_h os w2 hwnd ch) (swp_flags move) = Inl e"
      "r = Inl e" "w' = w2"
      "cs' = cs @ restore_calls os hwnd style w w1
         @ [(w2, SetWindowPosC hwnd HWND_TOP (swp_x os w2 hwnd move) (swp_y os w2 hwnd move)
               (adj_w os w2 hwnd cw) (adj_h os w2 hwnd ch) (swp_flags move))]"
  | title style w1 w2 cw ch w3 w4 e where "GetWindowText os w hwnd = Inr title"
      "GetWindowLong os w hwnd GWL_STYLE = Inr style"
      "ShowWindow os w hwnd SW_RESTORE = Inr w1" "w2 = after_restore os style w1"
      "client_wh os w2 hwnd = Inr (cw, ch)"
      "SetWindowPos os w2 hwnd HWND_TOP (swp_x os w2 hwnd move) (swp_y os w2 hwnd move)
         (adj_w os w2 hwnd cw) (adj_h os w2 hwnd ch) (swp_flags move) = Inr w3"
      "w4 = sleep os w3 150" "client_wh os w4 hwnd = Inl e"
      "r = Inl e" "w' = w4"
      "cs' = cs @ restore_calls os hwnd style w w1
         @ [(w2, SetWindowPosC hwnd HWND_TOP (swp_x os w2 hwnd move) (swp_y os w2 hwnd move)
               (adj_w os w2 hwnd cw) (adj_h os w2 hwnd ch) (swp_flags move)),
            (w3, SleepC 150)]"
  | title style w1 w2 cw ch w3 w4 where "GetWindowText os w hwnd = Inr title"
      "GetWindowLong os w hwnd GWL_STYLE = Inr style"
      "ShowWindow os w hwnd SW_RESTORE = Inr w1" "w2 = after_restore os style w1"
      "client_wh os w2 hwnd = Inr (cw, ch)"
      "SetWindowPos os w2 hwnd HWND_TOP (swp_x os w2 hwnd move) (swp_y os w2 hwnd move)
         (adj_w os w2 hwnd cw) (adj_h os w2 hwnd ch) (swp_flags move) = Inr w3"
      "w4 = sleep os w3 150" "client_wh os w4 hwnd = Inr (TARGET_W, TARGET_H)"
      "r = Inr (TARGET_W, TARGET_H)" "w' = w4"
      "cs' = cs @ restore_calls os hwnd style w w1
         @ [(w2, SetWindowPosC hwnd HWND_TOP (swp_x os w2 hwnd move) (swp_y os w2 hwnd move)
               (adj_w os w2 hwnd cw) (adj_h os w2 hwnd ch) (swp_flags move)),
            (w3, SleepC 150)]"
  | title style w1 w2 cw ch w3 w4 fw fh e where "GetWindowText os w hwnd = Inr title"
      "GetWindowLong os w hwnd GWL_STYLE = Inr style"
      "ShowWindow os w hwnd SW_RESTORE = Inr w1" "w2 = after_restore os style w1"
      "client_wh os w2 hwnd = Inr (cw, ch)"
      "SetWindowPos os w2 hwnd HWND_TOP (swp_x os w2 hwnd move) (swp_y os w2 hwnd move)
         (adj_w os w2 hwnd cw) (adj_h os w2 hwnd ch) (swp_flags move) = Inr w3"
      "w4 = sleep os w3 150" "client_wh os w4 hwnd = Inr (fw, fh)"
      "fw \<noteq> TARGET_W \<or> fh \<noteq> TARGET_H"
      "SetWindowPos os w4 hwnd HWND_TOP (swp_x os w2 hwnd move) (swp_y os w2 hwnd move)
         (adj_w os w4 hwnd fw) (adj_h os w4 hwnd fh) (swp_flags move) = Inl e"
      "r = Inl e" "w' = w4"
      "cs' = cs @ restore_calls os hwnd style w w1
         @ [(w2, SetWindowPosC hwnd HWND_TOP (swp_x os w2 hwnd move) (swp_y os w2 hwnd move)
               (adj_w os w2 hwnd cw) (adj_h os w2 hwnd ch) (swp_flags move)),
            (w3, SleepC 150),
            (w4, SetWindowPosC hwnd HWND_TOP (swp_x os w2 hwnd move) (swp_y os w2 hwnd move)
               (adj_w os w4 hwnd fw) (adj_h os w4 hwnd fh) (swp_flags move))]"
  | title style w1 w2 cw ch w3 w4 fw fh w5 w6 e where "GetWindowText os w hwnd = Inr title"
      "GetWindowLong os w hwnd GWL_STYLE = Inr style"
      "ShowWindow os w hwnd SW_RESTORE = Inr w1" "w2 = after_restore os style w1"
      "client_wh os w2 hwnd = Inr (cw, ch)"
      "SetWindowPos os w2 hwnd HWND_TOP (swp_x os w2 hwnd move) (swp_y os w2 hwnd move)
         (adj_w os w2 hwnd cw) (adj_h os w2 hwnd ch) (swp_flags move) = Inr w3"
      "w4 = sleep os w3 150" "client_wh os w4 hwnd = Inr (fw, fh)"
      "fw \<noteq> TARGET_W \<or> fh \<noteq> TARGET_H"
      "SetWindowPos os w4 hwnd HWND_TOP (swp_x os w2 hwnd move) (swp_y os w2 hwnd move)
         (adj_w os w4 hwnd fw) (adj_h os w4 hwnd fh) (swp_flags move) = Inr w5"
      "w6 = sleep os w5 150" "client_wh os w6 hwnd = Inl e"
      "r = Inl e" "w' = w6"
      "cs' = cs @ restore_calls os hwnd style w w1
         @ [(w2, SetWindowPosC hwnd HWND_TOP (swp_x os w2 hwnd move) (swp_y os w2 hwnd move)
               (adj_w os w2 hwnd cw) (adj_h os w2 hwnd ch) (swp_flags move)),
            (w3, SleepC 150),
            (w4, SetWindowPosC hwnd HWND_TOP (swp_x os w2 hwnd move) (swp_y os w2 hwnd move)
               (adj_w os w4 hwnd fw) (adj_h os w4 hwnd fh) (swp_flags move)),
            (w5, SleepC 150)]"
  | title style w1 w2 cw ch w3 w4 fw fh w5 w6 fw2 fh2 where "GetWindowText os w hwnd = Inr title"
      "GetWindowLong os w hwnd GWL_STYLE = Inr style"
      "ShowWindow os w hwnd SW_RESTORE = Inr w1" "w2 = after_restore os style w1"
      "client_wh os w2 hwnd = Inr (cw, ch)"
      "SetWindowPos os w2 hwnd HWND_TOP (swp_x os w2 hwnd move) (swp_y os w2 hwnd move)
         (adj_w os w2 hwnd cw) (adj_h os w2 hwnd ch) (swp_flags move) = Inr w3"
      "w4 = sleep os w3 150" "client_wh os w4 hwnd = Inr (fw, fh)"
      "fw \<noteq> TARGET_W \<or> fh \<noteq> TARGET_H"
      "SetWindowPos os w4 hwnd HWND_TOP (swp_x os w2 hwnd move) (swp_y os w2 hwnd move)
         (adj_w os w4 hwnd fw) (adj_h os w4 hwnd fh) (swp_flags move) = Inr w5"
      "w6 = sleep os w5 150" "client_wh os w6 hwnd = Inr (fw2, fh2)"
      "r = Inr (fw2, fh2)" "w' = w6"
      "cs' = cs @ restore_calls os hwnd style w w1
         @ [(w2, SetWindowPosC hwnd HWND_TOP (swp_x os w2 hwnd move) (swp_y os w2 hwnd move)
               (adj_w os w2 hwnd cw) (adj_h os w2 hwnd ch) (swp_flags move)),
            (w3, SleepC 150),
            (w4, SetWindowPosC hwnd HWND_TOP (swp_x os w2 hwnd move) (swp_y os w2 hwnd move)
               (adj_w os w4 hwnd fw) (adj_h os w4 hwnd fh) (swp_flags move)),
            (w5, SleepC 150)]"
proof -
  note defs = resize_body_def step return_def ghost
  show thesis
  proof (cases "GetWindowText os w hwnd")
    case (Inl e)
    show thesis
      by (rule that(1)[OF Inl]) (use run Inl in \<open>auto simp: defs\<close>)
  next
    case t: (Inr title)
    show thesis
    proof (cases "GetWindowLong os w hwnd GWL_STYLE")
      case (Inl e)
      show thesis
        by (rule that(2)[OF t Inl]) (use run t Inl in \<open>auto simp: defs\<close>)
    next
      case st: (Inr style)
      show thesis
      proof (cases "ShowWindow os w hwnd SW_RESTORE")
        case (Inl e)
        show thesis
          by (rule that(3)[OF t st Inl]) (use run t st Inl in \<open>auto simp: defs\<close>)
      next
        case sh: (Inr w1)
        let ?w2 = "after_restore os style w1"
        have w2: "?w2 = after_restore os style w1" by simp
        show thesis
        proof (cases "client_wh os ?w2 hwnd")
          case (Inl e)
          show thesis
            by (rule that(4)[OF t st sh w2 Inl])
               (use run t st sh Inl in \<open>auto simp: defs split: if_splits\<close>)
        next
          case (Inr c)
          then obtain cw ch where c: "client_wh os ?w2 hwnd = Inr (cw, ch)"
            by (cases c) auto
          let ?x = "swp_x os ?w2 hwnd move" and ?y = "swp_y os ?w2 hwnd move"
          let ?fl = "swp_flags move"
          show thesis
          proof (cases "SetWindowPos os ?w2 hwnd HWND_TOP ?x ?y
                          (adj_w os ?w2 hwnd cw) (adj_h os ?w2 hwnd ch) ?fl")
            case (Inl e)
            show thesis
              by (rule that(5)[OF t st sh w2 c Inl])
                 (use run t st sh c Inl in \<open>auto simp: defs split: if_splits\<close>)
          next
            case a1: (Inr w3)
            let ?w4 = "sleep os w3 150"
            have w4: "?w4 = sleep os w3 150" by simp
            show thesis
            proof (cases "client_wh os ?w4 hwnd")
              case (Inl e)
              show thesis
                by (rule that(6)[OF t st sh w2 c a1 w4 Inl])
                   (use run t st sh c a1 Inl in \<open>auto simp: defs split: if_splits\<close>)
            next
              case (Inr f)
              then obtain fw fh where f: "client_wh os ?w4 hwnd = Inr (fw, fh)"
                by (cases f) auto
              show thesis
              proof (cases "fw \<noteq> TARGET_W \<or> fh \<noteq> TARGET_H")
                case False
                then have f': "client_wh os ?w4 hwnd = Inr (TARGET_W, TARGET_H)"
                  using f by simp
                show thesis
                  by (rule that(7)[OF t st sh w2 c a1 w4 f'])
                     (use run t st sh c a1 f' in \<open>auto simp: defs split: if_splits\<close>)
              next
                case miss: True
                show thesis
                proof (cases "SetWindowPos os ?w4 hwnd HWND_TOP ?x ?y
                                (adj_w os ?w4 hwnd fw) (adj_h os ?w4 hwnd fh) ?fl")
                  case (Inl e)
                  show thesis
                    by (rule that(8)[OF t st sh w2 c a1 w4 f miss Inl])
                       (use run t st sh c a1 f miss Inl in \<open>auto simp: defs split: if_splits\<close>)
                next
                  case a2: (Inr w5)
                  let ?w6 = "sleep os w5 150"
                  have w6: "?w6 = sleep os w5 150" by simp
                  show thesis
                  proof (cases "client_wh os ?w6 hwnd")
                    case (Inl e)
                    show thesis
                      by (rule that(9)[OF t st sh w2 c a1 w4 f miss a2 w6 Inl])
                         (use run t st sh c a1 f miss a2 Inl in
                           \<open>auto simp: defs split: if_splits\<close>)
                  next
                    case (Inr g)
                    then obtain fw2 fh2 where g: "client_wh os ?w6 hwnd = Inr (fw2, fh2)"
                      by (cases g) auto
                    show thesis
                      by (rule that(10)[OF t st sh w2 c a1 w4 f miss a2 w6 g])
                         (use run t st sh c a1 f miss a2 g in
                           \<open>auto simp: defs split: if_splits\<close>)
                  qed
                qed
              qed
            qed
          qed
        qed
      qed
    qed
  qed
qed

section \<open>Margins\<close>

lemma nonclient_nonneg: "nonneg (get_nonclient_margins os w hwnd)"
  by (simp add: get_nonclient_margins_def nonneg_def split: sum.splits prod.splits)

lemma shadow_margins_exact:
  "get_shadow_margins os w hwnd =
     (case GetWindowRect os w hwnd of
        Inl exc \<Rightarrow> (0, 0, 0, 0)
      | Inr (ol, ot, or', ob) \<Rightarrow>
          (case DwmGetWindowAttribute_RECT os w hwnd DWMWA_EXTENDED_FRAME_BOUNDS of
             Inl exc \<Rightarrow> (0, 0, 0, 0)
           | Inr (rc_left, rc_top, rc_right, rc_bottom) \<Rightarrow>
               (rc_left - ol, rc_top - ot, or' - rc_right, ob - rc_bottom)))"
  by (simp add: get_shadow_margins_def split: sum.splits prod.splits)

text \<open>
  Claim C2 fails on the code for the shadow margins. \<open>_get_nonclient_margins\<close> floors
  each of its differences at 0 (\<open>nonclient_nonneg\<close>); \<open>_get_shadow_margins\<close> returns the
  plain differences (\<open>shadow_margins_exact\<close>). With the DWM rect 10 pixels to the left
  of the outer rect, the left shadow margin is -10, where the non-client margins of
  the same window are floored; and a resize that moves the window to the origin of
  its monitor, at (0, 0), then asks for the position (10, 0).
\<close>

theorem shadow_margins_negative:
  "get_window_rect sim_os desk_animating 1 = (100, 100, 1296, 759) \<and>
   get_visible_rect sim_os desk_animating 1 = (90, 100, 1298, 751) \<and>
   get_shadow_margins sim_os desk_animating 1 = (- 10, 0, 8, 8) \<and>
   \<not> nonneg (get_shadow_margins sim_os desk_animating 1) \<and>
   nonneg (get_nonclient_margins sim_os desk_animating 1) \<and>
   get_monitor_top_left sim_os desk_animating 1 = (0, 0) \<and>
   map snd (snd (snd (resize_window sim_os 1 True (desk_animating, [])))) =
     [ShowWindowC 1 SW_RESTORE, SetWindowPosC 1 HWND_TOP 10 0 1918 1119 52, SleepC 150]"
  by code_simp

section \<open>Where the client size comes from\<close>

text \<open>
  Claim C4 fails on the code for the size shown per selection. \<open>_client_wh\<close> reads
  \<open>GetClientRect\<close>, and gives 1296 x 759 for the window of \<open>desk_custom_chrome\<close>;
  \<open>_get_client_size\<close>, which \<open>_on_select\<close> shows, takes the non-client margins off the
  visible rect and gives 1280 x 751. After \<open>_do_resize\<close> the status reads
  "Client area 1920x1080" with the check mark, the client rect is 1920 x 1080, and the
  size label reads 1904 x 1072.
\<close>

theorem selection_size_not_client_rect:
  "GetClientRect sim_os desk_custom_chrome 1 = Inr (0, 0, 1296, 759) \<and>
   client_wh sim_os desk_custom_chrome 1 = Inr (1296, 759) \<and>
   get_client_size sim_os desk_custom_chrome 1 = (1280, 751) \<and>
   size_var (on_select sim_os desk_custom_chrome [1] initial_ui) =
     ascii ''1280 '' @ [MULTIPLICATION_SIGN] @ ascii '' 751'' \<and>
   (case do_resize sim_os [1] False initial_ui (desk_custom_chrome, []) of
      (warned, u, s) \<Rightarrow>
        status_var u = success_message \<and>
        client_wh sim_os (fst s) 1 = Inr (1920, 1080) \<and>
        size_var u = ascii ''1904 '' @ [MULTIPLICATION_SIGN] @ ascii '' 1072'')"
  by code_simp

section \<open>The paths of \<open>_resize_window\<close>\<close>

lemma resize_window_eq:
  "resize_body os hwnd move s = (r, s') \<Longrightarrow>
   resize_window os hwnd move s =
     ((case r of Inl e \<Rightarrow> error_message e
       | Inr (fw, fh) \<Rightarrow> if fw = TARGET_W \<and> fh = TARGET_H then success_message
                         else attempted_message fw fh), s')"
  by (simp add: resize_window_def split: sum.splits prod.splits)

lemma path_first_call:
  assumes "GetWindowText os w hwnd = Inr title"
    and "GetWindowLong os w hwnd GWL_STYLE = Inr style"
    and "ShowWindow os w hwnd SW_RESTORE = Inr w1"
    and "client_wh os (after_restore os style w1) hwnd = Inr (cw, ch)"
  shows "\<exists>rest. snd (snd (resize_window os hwnd move (w, cs))) =
       cs @ restore_calls os hwnd style w w1
        @ (after_restore os style w1, SetWindowPosC hwnd HWND_TOP
             (swp_x os (after_restore os style w1) hwnd move)
             (swp_y os (after_restore os style w1) hwnd move)
             (adj_w os (after_restore os style w1) hwnd cw)
             (adj_h os (after_restore os style w1) hwnd ch) (swp_flags move)) # rest"
proof -
  obtain r w' cs' where run: "resize_body os hwnd move (w, cs) = (r, (w', cs'))"
    by (metis surj_pair)
  from run assms show ?thesis
    by (cases rule: resize_body_cases) (auto simp: resize_window_eq [OF run])
qed



lemma size_by_delta_call:
  "client_wh os v hwnd = Inr (cw, ch) \<Longrightarrow>
   size_by_delta os hwnd (v, SetWindowPosC h a x y (adj_w os v hwnd cw) (adj_h os v hwnd ch) fl)"
  by (simp add: adj_w_def adj_h_def split: prod.splits)

lemma size_by_delta_restore:
  "list_all (size_by_delta os hwnd) (restore_calls os h style w w1)"
  by (simp add: restore_calls_def)

lemma placed_at_restore:
  "list_all (placed_at x y fl) (restore_calls os h style w w1)"
  by (simp add: restore_calls_def)

lemma every_call:
  assumes "resize_body os hwnd move (w, []) = (r, (w', cs'))"
  shows "list_all (size_by_delta os hwnd) cs' \<and>
         (\<forall>w1 style. ShowWindow os w hwnd SW_RESTORE = Inr w1 \<longrightarrow>
            GetWindowLong os w hwnd GWL_STYLE = Inr style \<longrightarrow>
            list_all (placed_at (swp_x os (after_restore os style w1) hwnd move)
                        (swp_y os (after_restore os style w1) hwnd move) (swp_flags move)) cs')"
  using assms
  by (cases rule: resize_body_cases)
     (auto simp: adj_w_def adj_h_def restore_calls_def)

lemma swp_flags_NOMOVE:
  "swp_flags True AND SWP_NOMOVE = 0" "swp_flags False AND SWP_NOMOVE = SWP_NOMOVE"
  by code_simp+

lemma SetWindowPos_calls_restore [simp]:
  "SetWindowPos_calls (restore_calls os hwnd style w w1 @ cs) = SetWindowPos_calls cs"
  by (simp add: SetWindowPos_calls_def restore_calls_def)

lemma SetWindowPos_calls_Cons [simp]:
  "SetWindowPos_calls ((v, SetWindowPosC h a x y cx cy fl) # cs)
     = (v, SetWindowPosC h a x y cx cy fl) # SetWindowPos_calls cs"
  by (simp add: SetWindowPos_calls_def)

lemma every_call_window:
  "list_all (size_by_delta os hwnd) (snd (snd (resize_window os hwnd move (w, [])))) \<and>
   (\<forall>w1 style. ShowWindow os w hwnd SW_RESTORE = Inr w1 \<longrightarrow>
      GetWindowLong os w hwnd GWL_STYLE = Inr style \<longrightarrow>
      list_all (placed_at (swp_x os (after_restore os style w1) hwnd move)
                  (swp_y os (after_restore os style w1) hwnd move) (swp_flags move))
        (snd (snd (resize_window os hwnd move (w, [])))))"
proof -
  obtain r w' cs' where run: "resize_body os hwnd move (w, []) = (r, (w', cs'))"
    by (metis surj_pair)
  from every_call [OF run] show ?thesis
    by (simp add: resize_window_eq [OF run])
qed

section \<open>The size asked for\<close>

text \<open>
  Claim C1: when \<open>_resize_window\<close> gets as far as measuring the client size, in the
  state v left by the restore step, its first \<open>SetWindowPos\<close> call is issued in v and
  asks for the outer size measured in v plus the difference between the target and
  the client size measured in v; every \<open>SetWindowPos\<close> call of the run, the retry
  included, asks for the outer size plus that difference as measured in the state
  the call is issued in. With a client size of 1280 x 720 and an outer size of
  1296 x 759 the first request is 1936 x 1119.
\<close>

theorem outer_size_request:
  assumes "GetWindowText os w hwnd = Inr title"
    and "GetWindowLong os w hwnd GWL_STYLE = Inr style"
    and "ShowWindow os w hwnd SW_RESTORE = Inr w1"
    and "v = (if style AND WS_MAXIMIZE \<noteq> 0 then sleep os w1 100 else w1)"
    and "client_wh os v hwnd = Inr (cw, ch)"
    and "get_window_rect os v hwnd = (lx, ly, lw, lh)"
  shows "(\<exists>rest. SetWindowPos_calls (snd (snd (resize_window os hwnd move (w, [])))) =
            (v, SetWindowPosC hwnd HWND_TOP (swp_x os v hwnd move) (swp_y os v hwnd move)
                  (lw + (TARGET_W - cw)) (lh + (TARGET_H - ch)) (swp_flags move)) # rest) \<and>
         list_all (size_by_delta os hwnd) (snd (snd (resize_window os hwnd move (w, [])))) \<and>
         (cw = 1280 \<and> ch = 720 \<and> lw = 1296 \<and> lh = 759 \<longrightarrow>
            (\<exists>rest. SetWindowPos_calls (snd (snd (resize_window os hwnd move (w, [])))) =
               (v, SetWindowPosC hwnd HWND_TOP (swp_x os v hwnd move) (swp_y os v hwnd move)
                     1936 1119 (swp_flags move)) # rest))"
proof -
  from assms(4) have v: "v = after_restore os style w1"
    by (simp add: after_restore_def)
  from path_first_call [OF assms(1-3) assms(5) [unfolded v], of move "[]"]
  obtain rest where "snd (snd (resize_window os hwnd move (w, []))) =
       restore_calls os hwnd style w w1
        @ (v, SetWindowPosC hwnd HWND_TOP (swp_x os v hwnd move) (swp_y os v hwnd move)
             (adj_w os v hwnd cw) (adj_h os v hwnd ch) (swp_flags move)) # rest"
    by (auto simp: v)
  then have first: "SetWindowPos_calls (snd (snd (resize_window os hwnd move (w, [])))) =
       (v, SetWindowPosC hwnd HWND_TOP (swp_x os v hwnd move) (swp_y os v hwnd move)
             (lw + (TARGET_W - cw)) (lh + (TARGET_H - ch)) (swp_flags move))
        # SetWindowPos_calls rest"
    using assms(6) by (simp add: adj_w_def adj_h_def)
  have "cw = 1280 \<and> ch = 720 \<and> lw = 1296 \<and> lh = 759
          \<longrightarrow> lw + (TARGET_W - cw) = 1936 \<and> lh + (TARGET_H - ch) = 1119"
    by (simp add: TARGET_W_def TARGET_H_def)
  with first every_call_window [of os hwnd move w] show ?thesis
    by auto
qed

theorem outer_size_request_witness:
  "client_wh sim_os desk_editor 1 = Inr (1280, 720) \<and>
   get_window_rect sim_os desk_editor 1 = (100, 100, 1296, 759) \<and>
   (\<exists>rest. SetWindowPos_calls (snd (snd (resize_window sim_os 1 False (desk_editor, [])))) =
      (desk_editor, SetWindowPosC 1 HWND_TOP (swp_x sim_os desk_editor 1 False)
         (swp_y sim_os desk_editor 1 False) 1936 1119 (swp_flags False)) # rest) \<and>
   map snd (snd (snd (resize_window sim_os 1 False (desk_editor, [])))) =
     [ShowWindowC 1 SW_RESTORE, SetWindowPosC 1 HWND_TOP 0 0 1936 1119 54, SleepC 150]"
proof -
  have t: "GetWindowText sim_os desk_editor 1 = Inr (ascii ''Editor'')"
    by code_simp
  have s: "GetWindowLong sim_os desk_editor 1 GWL_STYLE = Inr 0x14CF0000"
    by code_simp
  have sh: "ShowWindow sim_os desk_editor 1 SW_RESTORE = Inr desk_editor"
    by code_simp
  have v: "desk_editor =
      (if (0x14CF0000 :: int) AND WS_MAXIMIZE \<noteq> 0 then sleep sim_os desk_editor 100 else desk_editor)"
    by code_simp
  have c: "client_wh sim_os desk_editor 1 = Inr (1280, 720)"
    by code_simp
  have g: "get_window_rect sim_os desk_editor 1 = (100, 100, 1296, 759)"
    by code_simp
  have calls: "map snd (snd (snd (resize_window sim_os 1 False (desk_editor, [])))) =
     [ShowWindowC 1 SW_RESTORE, SetWindowPosC 1 HWND_TOP 0 0 1936 1119 54, SleepC 150]"
    by code_simp
  from outer_size_request [OF t s sh v c g, of False] c g calls show ?thesis
    by simp
qed

section \<open>The restore step\<close>

text \<open>
  Claim C3, as the code has it: once the title and the style have been read, the
  first call of \<open>_resize_window\<close> is \<open>ShowWindow(hwnd, SW_RESTORE)\<close>, whatever the
  style. When the style has WS_MAXIMIZE a pause of 100 ms follows, and the
  geometry is measured, and \<open>SetWindowPos\<close> called, in the state after the pause;
  without WS_MAXIMIZE there is no pause, and they are in the state the restore
  left.
\<close>

theorem restore_step:
  assumes "GetWindowText os w hwnd = Inr title"
    and "GetWindowLong os w hwnd GWL_STYLE = Inr style"
    and "ShowWindow os w hwnd SW_RESTORE = Inr w1"
    and "v = (if style AND WS_MAXIMIZE \<noteq> 0 then sleep os w1 100 else w1)"
    and "client_wh os v hwnd = Inr (cw, ch)"
  shows "\<exists>rest. snd (snd (resize_window os hwnd move (w, []))) =
           (w, ShowWindowC hwnd SW_RESTORE)
           # (if style AND WS_MAXIMIZE \<noteq> 0 then [(w1, SleepC 100)] else [])
           @ (v, SetWindowPosC hwnd HWND_TOP (swp_x os v hwnd move) (swp_y os v hwnd move)
                   (adj_w os v hwnd cw) (adj_h os v hwnd ch) (swp_flags move)) # rest"
proof -
  from assms(4) have v: "v = after_restore os style w1"
    by (simp add: after_restore_def)
  from path_first_call [OF assms(1-3) assms(5) [unfolded v], of move "[]"] show ?thesis
    by (simp add: v restore_calls_def)
qed

theorem restore_step_witness:
  "GetWindowLong sim_os desk_maximized 1 GWL_STYLE = Inr 0x15CF0000 \<and>
   (0x15CF0000 :: int) AND WS_MAXIMIZE \<noteq> 0 \<and>
   (\<exists>rest. snd (snd (resize_window sim_os 1 False (desk_maximized, []))) =
      (desk_maximized, ShowWindowC 1 SW_RESTORE)
      # (if (0x15CF0000 :: int) AND WS_MAXIMIZE \<noteq> 0
         then [(put_window desk_maximized 1 (plain_window (ascii ''Editor'') (- 8, 0, 2568, 1408)),
                SleepC 100)]
         else [])
      @ (put_window desk_maximized 1 (plain_window (ascii ''Editor'') (- 8, 0, 2568, 1408)),
         SetWindowPosC 1 HWND_TOP
           (swp_x sim_os (put_window desk_maximized 1
              (plain_window (ascii ''Editor'') (- 8, 0, 2568, 1408))) 1 False)
           (swp_y sim_os (put_window desk_maximized 1
              (plain_window (ascii ''Editor'') (- 8, 0, 2568, 1408))) 1 False)
           (adj_w sim_os (put_window desk_maximized 1
              (plain_window (ascii ''Editor'') (- 8, 0, 2568, 1408))) 1 2560)
           (adj_h sim_os (put_window desk_maximized 1
              (plain_window (ascii ''Editor'') (- 8, 0, 2568, 1408))) 1 1369)
           (swp_flags False)) # rest) \<and>
   map snd (snd (snd (resize_window sim_os 1 False (desk_maximized, [])))) =
     [ShowWindowC 1 SW_RESTORE, SleepC 100, SetWindowPosC 1 HWND_TOP 0 0 1936 1119 54,
      SleepC 150]"
proof -
  let ?w1 = "put_window desk_maximized 1 (plain_window (ascii ''Editor'') (- 8, 0, 2568, 1408))"
  have t: "GetWindowText sim_os desk_maximized 1 = Inr (ascii ''Editor'')"
    by code_simp
  have s: "GetWindowLong sim_os desk_maximized 1 GWL_STYLE = Inr 0x15CF0000"
    by code_simp
  have sh: "ShowWindow sim_os desk_maximized 1 SW_RESTORE = Inr ?w1"
    by code_simp
  have m: "(0x15CF0000 :: int) AND WS_MAXIMIZE \<noteq> 0"
    by code_simp
  have v: "?w1 = (if (0x15CF0000 :: int) AND WS_MAXIMIZE \<noteq> 0 then sleep sim_os ?w1 100 else ?w1)"
    by (simp add: sim_os_def)
  have c: "client_wh sim_os ?w1 1 = Inr (2560, 1369)"
    by code_simp
  have calls: "map snd (snd (snd (resize_window sim_os 1 False (desk_maximized, [])))) =
     [ShowWindowC 1 SW_RESTORE, SleepC 100, SetWindowPosC 1 HWND_TOP 0 0 1936 1119 54,
      SleepC 150]"
    by code_simp
  from restore_step [OF t s sh v c, of False] s m calls show ?thesis
    by blast
qed

text \<open>
  Claim C3 as stated fails: the restore command does not depend on the window being
  maximized. For a window whose style has no WS_MAXIMIZE the run still starts
  with \<open>ShowWindow(hwnd, SW_RESTORE)\<close>; only the pause is left out.
\<close>

theorem restore_issued_when_not_maximized:
  "GetWindowLong sim_os desk_editor 1 GWL_STYLE = Inr 0x14CF0000 \<and>
   (0x14CF0000 :: int) AND WS_MAXIMIZE = 0 \<and>
   map snd (snd (snd (resize_window sim_os 1 False (desk_editor, [])))) =
     [ShowWindowC 1 SW_RESTORE, SetWindowPosC 1 HWND_TOP 0 0 1936 1119 54, SleepC 150]"
  by code_simp

section \<open>The retry\<close>



section \<open>The position asked for\<close>

text \<open>
  Claim C6: let (mx, my) be the top-left of the window's monitor and (sl, st, sr, sb)
  the shadow margins, both measured in the state v left by the restore step. When
  repositioning is requested, the first \<open>SetWindowPos\<close> call passes the position
  (mx - sl, my - st) and flags without SWP_NOMOVE; a monitor at (1920, 0) and a
  shadow of 8 give (1912, -8). When it is not requested, the call passes (0, 0) and
  flags with SWP_NOMOVE. Every \<open>SetWindowPos\<close> call of the run passes that same
  position and those same flags.
\<close>

theorem position_decision:
  assumes "GetWindowText os w hwnd = Inr title"
    and "GetWindowLong os w hwnd GWL_STYLE = Inr style"
    and "ShowWindow os w hwnd SW_RESTORE = Inr w1"
    and "v = (if style AND WS_MAXIMIZE \<noteq> 0 then sleep os w1 100 else w1)"
    and "client_wh os v hwnd = Inr (cw, ch)"
    and "get_monitor_top_left os v hwnd = (mx, my)"
    and "get_shadow_margins os v hwnd = (sl, st, sr, sb)"
  shows "(\<exists>rest. SetWindowPos_calls (snd (snd (resize_window os hwnd move (w, [])))) =
            (v, SetWindowPosC hwnd HWND_TOP (if move then mx - sl else 0)
                  (if move then my - st else 0) (adj_w os v hwnd cw) (adj_h os v hwnd ch)
                  (swp_flags move)) # rest) \<and>
         list_all (placed_at (if move then mx - sl else 0) (if move then my - st else 0)
                     (swp_flags move))
           (snd (snd (resize_window os hwnd move (w, [])))) \<and>
         swp_flags move AND SWP_NOMOVE = (if move then 0 else SWP_NOMOVE) \<and>
         SWP_NOMOVE \<noteq> 0 \<and>
         (move \<and> mx = 1920 \<and> my = 0 \<and> sl = 8 \<and> st = 8 \<longrightarrow>
            (\<exists>rest. SetWindowPos_calls (snd (snd (resize_window os hwnd move (w, [])))) =
               (v, SetWindowPosC hwnd HWND_TOP 1912 (- 8) (adj_w os v hwnd cw)
                     (adj_h os v hwnd ch) (swp_flags move)) # rest))"
proof -
  from assms(4) have v: "v = after_restore os style w1"
    by (simp add: after_restore_def)
  have x: "swp_x os v hwnd move = (if move then mx - sl else 0)"
    and y: "swp_y os v hwnd move = (if move then my - st else 0)"
    using assms(6,7) by (simp_all add: swp_x_def swp_y_def)
  from path_first_call [OF assms(1-3) assms(5) [unfolded v], of move "[]"]
  obtain rest where "snd (snd (resize_window os hwnd move (w, []))) =
       restore_calls os hwnd style w w1
        @ (v, SetWindowPosC hwnd HWND_TOP (swp_x os v hwnd move) (swp_y os v hwnd move)
             (adj_w os v hwnd cw) (adj_h os v hwnd ch) (swp_flags move)) # rest"
    by (auto simp: v)
  then have first: "SetWindowPos_calls (snd (snd (resize_window os hwnd move (w, [])))) =
       (v, SetWindowPosC hwnd HWND_TOP (if move then mx - sl else 0)
             (if move then my - st else 0) (adj_w os v hwnd cw) (adj_h os v hwnd ch)
             (swp_flags move)) # SetWindowPos_calls rest"
    by (simp add: x y)
  from every_call_window [of os hwnd move w] assms(2,3)
  have every: "list_all (placed_at (if move then mx - sl else 0) (if move then my - st else 0)
                     (swp_flags move))
           (snd (snd (resize_window os hwnd move (w, []))))"
    by (simp add: x [symmetric] y [symmetric] v)
  have flags: "swp_flags move AND SWP_NOMOVE = (if move then 0 else SWP_NOMOVE)"
    by (cases move) (simp_all add: swp_flags_NOMOVE)
  have nz: "SWP_NOMOVE \<noteq> 0"
    by (simp add: SWP_NOMOVE_def)
  from first every flags nz show ?thesis
    by auto
qed

theorem position_decision_witness:
  "get_monitor_top_left sim_os desk_second_monitor 1 = (1920, 0) \<and>
   get_shadow_margins sim_os desk_second_monitor 1 = (8, 8, 8, 8) \<and>
   (\<exists>rest. SetWindowPos_calls (snd (snd (resize_window sim_os 1 True (desk_second_monitor, [])))) =
      (desk_second_monitor, SetWindowPosC 1 HWND_TOP 1912 (- 8)
         (adj_w sim_os desk_second_monitor 1 1280) (adj_h sim_os desk_second_monitor 1 720)
         (swp_flags True)) # rest) \<and>
   map snd (snd (snd (resize_window sim_os 1 True (desk_second_monitor, [])))) =
     [ShowWindowC 1 SW_RESTORE, SetWindowPosC 1 HWND_TOP 1912 (- 8) 1936 1127 52, SleepC 150] \<and>
   get_visible_rect sim_os (fst (snd (resize_window sim_os 1 True (desk_second_monitor, [])))) 1
     = (1920, 0, 1920, 1111) \<and>
   list_all (placed_at 0 0 (swp_flags False))
     (snd (snd (resize_window sim_os 1 False (desk_second_monitor, [])))) \<and>
   swp_flags False AND SWP_NOMOVE = SWP_NOMOVE \<and>
   map snd (snd (snd (resize_window sim_os 1 False (desk_second_monitor, [])))) =
     [ShowWindowC 1 SW_RESTORE, SetWindowPosC 1 HWND_TOP 0 0 1936 1127 54, SleepC 150] \<and>
   get_window_rect sim_os desk_second_monitor 1 = (2000, 100, 1296, 767) \<and>
   get_window_rect sim_os (fst (snd (resize_window sim_os 1 False (desk_second_monitor, [])))) 1
     = (2000, 100, 1936, 1127)"
proof -
  have t: "GetWindowText sim_os desk_second_monitor 1 = Inr (ascii ''Player'')"
    by code_simp
  have s: "GetWindowLong sim_os desk_second_monitor 1 GWL_STYLE = Inr 0x14CF0000"
    by code_simp
  have sh: "ShowWindow sim_os desk_second_monitor 1 SW_RESTORE = Inr desk_second_monitor"
    by code_simp
  have v: "desk_second_monitor =
      (if (0x14CF0000 :: int) AND WS_MAXIMIZE \<noteq> 0 then sleep sim_os desk_second_monitor 100
       else desk_second_monitor)"
    by code_simp
  have c: "client_wh sim_os desk_second_monitor 1 = Inr (1280, 720)"
    by code_simp
  have m: "get_monitor_top_left sim_os desk_second_monitor 1 = (1920, 0)"
    by code_simp
  have sm: "get_shadow_margins sim_os desk_second_monitor 1 = (8, 8, 8, 8)"
    by code_simp
  have calls: "map snd (snd (snd (resize_window sim_os 1 True (desk_second_monitor, [])))) =
     [ShowWindowC 1 SW_RESTORE, SetWindowPosC 1 HWND_TOP 1912 (- 8) 1936 1127 52, SleepC 150]"
    by code_simp
  have vis: "get_visible_rect sim_os
      (fst (snd (resize_window sim_os 1 True (desk_second_monitor, [])))) 1 = (1920, 0, 1920, 1111)"
    by code_simp
  have calls': "map snd (snd (snd (resize_window sim_os 1 False (desk_second_monitor, [])))) =
     [ShowWindowC 1 SW_RESTORE, SetWindowPosC 1 HWND_TOP 0 0 1936 1127 54, SleepC 150]"
    by code_simp
  have before: "get_window_rect sim_os desk_second_monitor 1 = (2000, 100, 1296, 767)"
    by code_simp
  have after: "get_window_rect sim_os
      (fst (snd (resize_window sim_os 1 False (desk_second_monitor, [])))) 1
        = (2000, 100, 1936, 1127)"
    by code_simp
  from position_decision [OF t s sh v c m sm, of True]
       position_decision [OF t s sh v c m sm, of False]
       m sm calls vis calls' before after
  show ?thesis
    by simp
qed

section \<open>A window that has the target size already\<close>




section \<open>Batches\<close>

lemma py_in_single: "py_in [c] s \<longleftrightarrow> c \<in> set s"
  by (induction s) auto

lemma str_nat_digits: "c \<in> set (str_nat n) \<Longrightarrow> 48 \<le> c \<and> c \<le> 57"
proof (induction n rule: str_nat.induct)
  case (1 n)
  show ?case
  proof (cases "n < 10")
    case True
    with 1(2) show ?thesis by (simp add: str_nat.simps [of n])
  next
    case False
    with 1 show ?thesis by (auto simp: str_nat.simps [of n])
  qed
qed

lemma CHECK_MARK_str_int [simp]: "CHECK_MARK \<notin> set (str_int i)"
  using str_nat_digits [of CHECK_MARK] by (auto simp: str_int_def CHECK_MARK_def)

lemma CHECK_MARK_ascii [simp]: "CHECK_MARK \<notin> set (ascii s)"
proof
  assume "CHECK_MARK \<in> set (ascii s)"
  then obtain c :: char where "of_char c = (10003 :: nat)"
    by (auto simp: ascii_def CHECK_MARK_def)
  moreover have "of_char c < (256 :: nat)"
    by simp
  ultimately show False
    by linarith
qed

lemma CHECK_MARK_other [simp]: "CHECK_MARK \<noteq> MULTIPLICATION_SIGN"
  by (simp add: CHECK_MARK_def MULTIPLICATION_SIGN_def)

lemma check_success [simp]: "py_in [CHECK_MARK] success_message"
  by (simp add: py_in_single success_message_def)

lemma check_attempted [simp]: "\<not> py_in [CHECK_MARK] (attempted_message fw fh)"
  by (simp add: py_in_single attempted_message_def)

lemma check_error [simp]:
  "py_in [CHECK_MARK] (error_message e) \<longleftrightarrow> py_in [CHECK_MARK] (message e)"
  by (simp add: py_in_single error_message_def)

lemma attempted_not_success [simp]: "attempted_message fw fh \<noteq> success_message"
  using check_attempted [of fw fh] check_success by metis

lemma length_filter_all: "length (filter P xs) = length xs \<longleftrightarrow> (\<forall>x \<in> set xs. P x)"
proof -
  have "length (filter P xs) = length xs \<longleftrightarrow> filter (\<lambda>x. \<not> P x) xs = []"
    using sum_length_filter_compl [of P xs] by auto
  then show ?thesis
    by (simp add: filter_empty_conv)
qed

lemma check_status:
  "results \<noteq> [] \<Longrightarrow>
   py_in [CHECK_MARK] (status_message results) \<longleftrightarrow> (\<forall>r \<in> set results. py_in [CHECK_MARK] r)"
proof (cases "length results = 1")
  case True
  then obtain r where "results = [r]"
    by (cases results) auto
  then show ?thesis
    by (simp add: status_message_def)
next
  case False
  then show ?thesis
    by (simp add: status_message_def Let_def py_in_single length_filter_all)
qed

lemma resize_each_outcomes:
  "fst (resize_each os move hwnds s) =
     map (\<lambda>r. case r of Inl e \<Rightarrow> error_message e
                 | Inr (fw, fh) \<Rightarrow> if fw = TARGET_W \<and> fh = TARGET_H then success_message
                                   else attempted_message fw fh)
       (resize_outcomes os move hwnds s)"
proof (induction hwnds arbitrary: s)
  case Nil
  show ?case by simp
next
  case (Cons h hwnds)
  obtain r s1 where run: "resize_body os h move s = (r, s1)"
    by (metis surj_pair)
  obtain rs s2 where rest: "resize_each os move hwnds s1 = (rs, s2)"
    by (metis surj_pair)
  from Cons [of s1] run rest show ?case
    by (simp add: resize_window_eq [OF run])
qed


lemma resize_each_length: "length (fst (resize_each os move hwnds s)) = length hwnds"
  by (induction hwnds arbitrary: s) (simp_all add: split_def)


lemma on_select_status [simp]: "status_var (on_select os w hwnds u) = status_var u"
  by (simp add: on_select_def Let_def split: prod.splits)

lemma do_resize_status:
  assumes "hwnds \<noteq> []"
  shows "do_resize os hwnds move u s =
           (False, fst (snd (do_resize os hwnds move u s)), snd (resize_each os move hwnds s)) \<and>
         status_var (fst (snd (do_resize os hwnds move u s))) =
           status_message (fst (resize_each os move hwnds s))"
  using assms by (simp add: do_resize_def Let_def split_def)

lemma check_report:
  assumes "\<forall>e. r = Inl e \<longrightarrow> \<not> py_in [CHECK_MARK] (message e)"
  shows "py_in [CHECK_MARK]
           (case r of Inl e \<Rightarrow> error_message e
            | Inr (fw, fh) \<Rightarrow> if fw = TARGET_W \<and> fh = TARGET_H then success_message
                              else attempted_message fw fh)
         \<longleftrightarrow> r = Inr (TARGET_W, TARGET_H)"
  using assms by (cases r) (auto split: if_splits)




text \<open>
  Claim C10: for a selection of two or more handles, the status that \<open>_do_resize\<close>
  shows is "ok/n windows resized" with the check mark when ok = n, and "ok/n succeeded"
  otherwise, where n is the number of handles and ok the number of results of
  \<open>_resize_window\<close> that have the check mark. Each result is the success message, the
  "Attempted" message carrying the client size measured last, or the "Error:"
  message of the exception caught. When no exception message has a check mark,
  ok counts the handles whose client size measured last is the target, and the
  status has the check mark exactly when that holds for every handle.
\<close>

theorem aggregate_status:
  assumes "2 \<le> length hwnds"
    and "\<forall>e. Inl e \<in> set (resize_outcomes os move hwnds s) \<longrightarrow> \<not> py_in [CHECK_MARK] (message e)"
    and "do_resize os hwnds move u s = (warned, u', s')"
  shows "(let ok = length (filter (py_in [CHECK_MARK]) (fst (resize_each os move hwnds s))) in
          status_var u' =
            str_int (int ok) @ ascii ''/'' @ str_int (int (length hwnds))
              @ (if ok = length hwnds then ascii '' windows resized '' @ [CHECK_MARK]
                 else ascii '' succeeded'') \<and>
          ok = length (filter (\<lambda>r. r = Inr (TARGET_W, TARGET_H))
                  (resize_outcomes os move hwnds s))) \<and>
         fst (resize_each os move hwnds s) =
           map (\<lambda>r. case r of Inl e \<Rightarrow> error_message e
                       | Inr (fw, fh) \<Rightarrow> if fw = TARGET_W \<and> fh = TARGET_H then success_message
                                         else attempted_message fw fh)
             (resize_outcomes os move hwnds s) \<and>
         (py_in [CHECK_MARK] (status_var u') \<longleftrightarrow>
            (\<forall>r \<in> set (resize_outcomes os move hwnds s). r = Inr (TARGET_W, TARGET_H)))"
proof -
  let ?results = "fst (resize_each os move hwnds s)"
  let ?outs = "resize_outcomes os move hwnds s"
  let ?report = "\<lambda>r. case r of Inl e \<Rightarrow> error_message e
                       | Inr (fw, fh) \<Rightarrow> if fw = TARGET_W \<and> fh = TARGET_H then success_message
                                         else attempted_message fw fh"
  from assms(1) have ne: "hwnds \<noteq> []"
    by auto
  have len: "length ?results = length hwnds"
    by (rule resize_each_length)
  from do_resize_status [OF ne, of os move u s] assms(3)
  have st: "status_var u' = status_message ?results"
    by auto
  have rep: "?results = map ?report ?outs"
    by (rule resize_each_outcomes)
  have each: "py_in [CHECK_MARK] (?report out) \<longleftrightarrow> out = Inr (TARGET_W, TARGET_H)"
    if "out \<in> set ?outs" for out
  proof -
    from that assms(2) have "\<forall>e. out = Inl e \<longrightarrow> \<not> py_in [CHECK_MARK] (message e)"
      by auto
    from check_report [OF this] show ?thesis .
  qed
  have "filter (py_in [CHECK_MARK]) ?results =
          map ?report (filter (\<lambda>out. py_in [CHECK_MARK] (?report out)) ?outs)"
    by (simp add: rep filter_map comp_def)
  also have "filter (\<lambda>out. py_in [CHECK_MARK] (?report out)) ?outs =
          filter (\<lambda>r. r = Inr (TARGET_W, TARGET_H)) ?outs"
    using each by (intro filter_cong) auto
  finally have count: "length (filter (py_in [CHECK_MARK]) ?results) =
      length (filter (\<lambda>r. r = Inr (TARGET_W, TARGET_H)) ?outs)"
    by simp
  from assms(1) len have "length ?results \<noteq> 1"
    by simp
  then have msg: "status_message ?results =
      str_int (int (length (filter (py_in [CHECK_MARK]) ?results))) @ ascii ''/''
        @ str_int (int (length hwnds))
        @ (if length (filter (py_in [CHECK_MARK]) ?results) = length hwnds
           then ascii '' windows resized '' @ [CHECK_MARK] else ascii '' succeeded'')"
    by (simp add: status_message_def Let_def len)
  from len ne have "?results \<noteq> []"
    by auto
  from check_status [OF this] st
  have "py_in [CHECK_MARK] (status_var u') \<longleftrightarrow> (\<forall>r \<in> set ?results. py_in [CHECK_MARK] r)"
    by simp
  also have "\<dots> \<longleftrightarrow> (\<forall>out \<in> set ?outs. out = Inr (TARGET_W, TARGET_H))"
    using each by (simp add: rep)
  finally have iff: "py_in [CHECK_MARK] (status_var u') \<longleftrightarrow>
      (\<forall>out \<in> set ?outs. out = Inr (TARGET_W, TARGET_H))" .
  from st msg count rep iff show ?thesis
    by (simp add: Let_def)
qed

theorem aggregate_status_witness:
  "resize_outcomes sim_os False [1, 2] (desk_pair, []) = [Inr (1920, 1080), Inr (1920, 1080)] \<and>
   fst (resize_each sim_os False [1, 2] (desk_pair, [])) =
     [ascii ''Client area 1920'' @ [MULTIPLICATION_SIGN] @ ascii ''1080 '' @ [CHECK_MARK],
      ascii ''Client area 1920'' @ [MULTIPLICATION_SIGN] @ ascii ''1080 '' @ [CHECK_MARK]] \<and>
   status_var (fst (snd (do_resize sim_os [1, 2] False initial_ui (desk_pair, [])))) =
     ascii ''2/2 windows resized '' @ [CHECK_MARK]"
proof -
  have two: "2 \<le> length [1, 2 :: hwnd]"
    by simp
  have run: "do_resize sim_os [1, 2] False initial_ui (desk_pair, []) =
      (fst (do_resize sim_os [1, 2] False initial_ui (desk_pair, [])),
       fst (snd (do_resize sim_os [1, 2] False initial_ui (desk_pair, []))),
       snd (snd (do_resize sim_os [1, 2] False initial_ui (desk_pair, []))))"
    by simp
  have outs: "resize_outcomes sim_os False [1, 2] (desk_pair, []) =
      [Inr (1920, 1080), Inr (1920, 1080)]"
    by code_simp
  have h: "\<forall>e. Inl e \<in> set (resize_outcomes sim_os False [1, 2] (desk_pair, []))
      \<longrightarrow> \<not> py_in [CHECK_MARK] (message e)"
    unfolding outs by simp
  have count: "length (filter (\<lambda>r. r = Inr (TARGET_W, TARGET_H))
                  [Inr (1920, 1080), Inr (1920, 1080) :: py_exception + int \<times> int]) = 2"
    by (simp add: TARGET_W_def TARGET_H_def)
  have strs: "str_int (int 2) @ ascii ''/'' @ str_int (int (length [1, 2 :: hwnd]))
        @ (if (2 :: nat) = length [1, 2 :: hwnd] then ascii '' windows resized '' @ [CHECK_MARK]
           else ascii '' succeeded'') = ascii ''2/2 windows resized '' @ [CHECK_MARK]"
    by code_simp
  have shapes: "map (\<lambda>r. case r of Inl e \<Rightarrow> error_message e
                       | Inr (fw, fh) \<Rightarrow> if fw = TARGET_W \<and> fh = TARGET_H then success_message
                                         else attempted_message fw fh)
             [Inr (1920, 1080), Inr (1920, 1080)] =
     [ascii ''Client area 1920'' @ [MULTIPLICATION_SIGN] @ ascii ''1080 '' @ [CHECK_MARK],
      ascii ''Client area 1920'' @ [MULTIPLICATION_SIGN] @ ascii ''1080 '' @ [CHECK_MARK]]"
    by code_simp
  from aggregate_status [OF two h run, unfolded Let_def]
  have "status_var (fst (snd (do_resize sim_os [1, 2] False initial_ui (desk_pair, [])))) =
      str_int (int (length (filter (\<lambda>r. r = Inr (TARGET_W, TARGET_H))
                  (resize_outcomes sim_os False [1, 2] (desk_pair, []))))) @ ascii ''/''
        @ str_int (int (length [1, 2 :: hwnd]))
        @ (if length (filter (\<lambda>r. r = Inr (TARGET_W, TARGET_H))
                  (resize_outcomes sim_os False [1, 2] (desk_pair, []))) = length [1, 2 :: hwnd]
           then ascii '' windows resized '' @ [CHECK_MARK] else ascii '' succeeded'')"
    and rep: "fst (resize_each sim_os False [1, 2] (desk_pair, [])) =
           map (\<lambda>r. case r of Inl e \<Rightarrow> error_message e
                       | Inr (fw, fh) \<Rightarrow> if fw = TARGET_W \<and> fh = TARGET_H then success_message
                                         else attempted_message fw fh)
             (resize_outcomes sim_os False [1, 2] (desk_pair, []))"
    by metis+
  then have a: "status_var (fst (snd (do_resize sim_os [1, 2] False initial_ui (desk_pair, [])))) =
     ascii ''2/2 windows resized '' @ [CHECK_MARK]"
    and c: "fst (resize_each sim_os False [1, 2] (desk_pair, [])) =
     [ascii ''Client area 1920'' @ [MULTIPLICATION_SIGN] @ ascii ''1080 '' @ [CHECK_MARK],
      ascii ''Client area 1920'' @ [MULTIPLICATION_SIGN] @ ascii ''1080 '' @ [CHECK_MARK]]"
    by (simp_all only: outs count strs shapes)
  from a c outs show ?thesis
    by blast
qed

end
